theory Spec2Isabelle
  imports Complex_Main "HOL-Library.Word" "HOL-Library.AList"
begin

section \<open>The ledger contract (CryptoTradingContract)\<close>

text \<open>
  The contract is compiled with Solidity 0.8: every \<open>uint256\<close> operation \<open>+\<close>, \<open>-\<close>,
  \<open>*\<close>, \<open>++\<close> is checked and reverts the whole call with an arithmetic panic when the
  exact result does not fit in 256 bits. A reverted call leaves no trace, so each
  state-changing function returns either an error or the complete new state. The
  fields \<open>id\<close> and \<open>price\<close> of a transaction are \<open>txId\<close> and \<open>txPrice\<close> here.
\<close>

type_synonym uint256 = "256 word"
type_synonym address = "160 word"

record CryptoCurrency =
  symbol :: string
  price :: uint256
  isActive :: bool

record Transaction =
  txId :: uint256
  user :: address
  cryptoSymbol :: string
  amount :: uint256
  txPrice :: uint256
  transactionType :: string
  timestamp :: uint256
  completed :: bool

datatype event =
    CryptoAdded string uint256
  | CryptoPriceUpdated string uint256
  | CryptoBought uint256 address string uint256 uint256 uint256
  | CryptoSold uint256 address string uint256 uint256 uint256

text \<open>
  \<open>Revert msg\<close> is a failed \<open>require\<close> with its message, \<open>Panic\<close> the checked-arithmetic
  failure, \<open>TransferFailed\<close> a \<open>transfer\<close> that the recipient did not accept.
\<close>

datatype error = Revert string | Panic | TransferFailed

abbreviation NotOwner :: error where
  "NotOwner \<equiv> Revert ''Only owner can perform this action''"
abbreviation NotRegistered :: error where
  "NotRegistered \<equiv> Revert ''Cryptocurrency not supported''"
abbreviation InvalidAmount :: error where
  "InvalidAmount \<equiv> Revert ''Amount must be greater than 0''"
abbreviation AlreadyRegistered :: error where
  "AlreadyRegistered \<equiv> Revert ''Cryptocurrency already exists''"
abbreviation InvalidPrice :: error where
  "InvalidPrice \<equiv> Revert ''Price must be greater than 0''"
abbreviation InsufficientPayment :: error where
  "InsufficientPayment \<equiv> Revert ''Insufficient ETH sent''"
abbreviation InsufficientBalance :: error where
  "InsufficientBalance \<equiv> Revert ''Insufficient cryptocurrency balance''"
abbreviation InsufficientReserve :: error where
  "InsufficientReserve \<equiv> Revert ''Contract has insufficient ETH''"

text \<open>
  The storage of the contract. Solidity mappings are total: a key never written reads
  as the zero value of its type. \<open>reserve\<close> is \<open>address(this).balance\<close>, the ether the
  contract holds, in wei; the execution environment keeps it far below \<open>2 ^ 256\<close>, so
  it is a natural number. \<open>events\<close> is the log of emitted events.
\<close>

record contract =
  owner :: address
  transactionCount :: uint256
  cryptocurrencies :: "string \<Rightarrow> CryptoCurrency"
  userBalances :: "address \<Rightarrow> string \<Rightarrow> uint256"
  transactions :: "uint256 \<Rightarrow> Transaction"
  userTransactions :: "address \<Rightarrow> uint256 list"
  supportedCryptos :: "string list"
  reserve :: nat
  events :: "event list"

text \<open>
  What a call brings with it: \<open>msg.sender\<close>, \<open>block.timestamp\<close>, and whether the
  sender's account accepts a plain ether \<open>transfer\<close> (always true for an externally
  owned account, possibly false for a contract account).
\<close>

record msg =
  sender :: address
  blockTimestamp :: uint256
  senderReceives :: bool

definition zeroCryptoCurrency :: CryptoCurrency where
  "zeroCryptoCurrency = \<lparr>symbol = [], price = 0, isActive = False\<rparr>"

definition zeroTransaction :: Transaction where
  "zeroTransaction = \<lparr>txId = 0, user = 0, cryptoSymbol = [], amount = 0, txPrice = 0,
     transactionType = [], timestamp = 0, completed = False\<rparr>"

definition emptyContract :: contract where
  "emptyContract = \<lparr>owner = 0, transactionCount = 0,
     cryptocurrencies = (\<lambda>_. zeroCryptoCurrency),
     userBalances = (\<lambda>_ _. 0),
     transactions = (\<lambda>_. zeroTransaction),
     userTransactions = (\<lambda>_. []),
     supportedCryptos = [],
     reserve = 0,
     events = []\<rparr>"

subsection \<open>Checked arithmetic\<close>

definition checked_add :: "uint256 \<Rightarrow> uint256 \<Rightarrow> uint256 option" where
  "checked_add a b = (if unat a + unat b < 2 ^ 256 then Some (a + b) else None)"

definition checked_sub :: "uint256 \<Rightarrow> uint256 \<Rightarrow> uint256 option" where
  "checked_sub a b = (if unat b \<le> unat a then Some (a - b) else None)"

definition checked_mul :: "uint256 \<Rightarrow> uint256 \<Rightarrow> uint256 option" where
  "checked_mul a b = (if unat a * unat b < 2 ^ 256 then Some (a * b) else None)"

subsection \<open>State-changing functions\<close>

definition addCryptocurrency :: "contract \<Rightarrow> msg \<Rightarrow> string \<Rightarrow> uint256 \<Rightarrow> error + contract" where
  "addCryptocurrency st m sy p =
     (if sender m \<noteq> owner st then Inl NotOwner
      else if isActive (cryptocurrencies st sy) then Inl AlreadyRegistered
      else if \<not> 0 < p then Inl InvalidPrice
      else Inr (st\<lparr>
        cryptocurrencies := (cryptocurrencies st)(sy := \<lparr>symbol = sy, price = p, isActive = True\<rparr>),
        supportedCryptos := supportedCryptos st @ [sy],
        events := events st @ [CryptoAdded sy p]\<rparr>))"

definition updateCryptoPrice :: "contract \<Rightarrow> msg \<Rightarrow> string \<Rightarrow> uint256 \<Rightarrow> error + contract" where
  "updateCryptoPrice st m sy newPrice =
     (if sender m \<noteq> owner st then Inl NotOwner
      else if \<not> isActive (cryptocurrencies st sy) then Inl NotRegistered
      else if \<not> 0 < newPrice then Inl InvalidPrice
      else Inr (st\<lparr>
        cryptocurrencies := (cryptocurrencies st)(sy := (cryptocurrencies st sy)\<lparr>price := newPrice\<rparr>),
        events := events st @ [CryptoPriceUpdated sy newPrice]\<rparr>))"

text \<open>
  The constructor binds the owner to the deployer and registers four assets through
  \<open>addCryptocurrency\<close>; a failure of any of them would abort the deployment.
\<close>

definition "constructor" :: "msg \<Rightarrow> error + contract" where
  "constructor m =
     (case addCryptocurrency (emptyContract\<lparr>owner := sender m, transactionCount := 0\<rparr>) m
             ''BTC'' (30000 * 10 ^ 18) of
        Inl e \<Rightarrow> Inl e
      | Inr s1 \<Rightarrow>
     (case addCryptocurrency s1 m ''ETH'' (1 * 10 ^ 18) of
        Inl e \<Rightarrow> Inl e
      | Inr s2 \<Rightarrow>
     (case addCryptocurrency s2 m ''ADA'' (5 * 10 ^ 15) of
        Inl e \<Rightarrow> Inl e
      | Inr s3 \<Rightarrow> addCryptocurrency s3 m ''DOT'' (10 * 10 ^ 15))))"

text \<open>
  \<open>buyCryptocurrency\<close> is payable: \<open>v\<close> is \<open>msg.value\<close>, credited to the contract
  before the body runs. The result carries the new state and the wei sent back to the
  caller (the refund; 0 when nothing is transferred).
\<close>

definition buyCryptocurrency ::
  "contract \<Rightarrow> msg \<Rightarrow> uint256 \<Rightarrow> string \<Rightarrow> uint256 \<Rightarrow> error + contract \<times> uint256" where
  "buyCryptocurrency st m v sy amt =
     (if \<not> isActive (cryptocurrencies st sy) then Inl NotRegistered
      else if \<not> 0 < amt then Inl InvalidAmount
      else case checked_mul amt (price (cryptocurrencies st sy)) of
        None \<Rightarrow> Inl Panic
      | Some product \<Rightarrow>
          let totalCost = product div 10 ^ 18 in
          if \<not> totalCost \<le> v then Inl InsufficientPayment
          else case checked_add (transactionCount st) 1 of
            None \<Rightarrow> Inl Panic
          | Some cnt \<Rightarrow>
              let newTransaction = \<lparr>txId = cnt, user = sender m, cryptoSymbol = sy,
                    amount = amt, txPrice = price (cryptocurrencies st sy),
                    transactionType = ''buy'', timestamp = blockTimestamp m,
                    completed = True\<rparr> in
              case checked_add (userBalances st (sender m) sy) amt of
                None \<Rightarrow> Inl Panic
              | Some bal \<Rightarrow>
                  if totalCost < v \<and> \<not> senderReceives m then Inl TransferFailed
                  else
                    let refund = (if totalCost < v then v - totalCost else 0) in
                    Inr (st\<lparr>
                      transactionCount := cnt,
                      transactions := (transactions st)(cnt := newTransaction),
                      userTransactions := (userTransactions st)
                        (sender m := userTransactions st (sender m) @ [cnt]),
                      userBalances := (userBalances st)
                        (sender m := (userBalances st (sender m))(sy := bal)),
                      reserve := reserve st + unat v - unat refund,
                      events := events st @ [CryptoBought cnt (sender m) sy amt
                        (price (cryptocurrencies st sy)) (blockTimestamp m)]\<rparr>,
                      refund))"

text \<open>
  \<open>sellCryptocurrency\<close> is not payable. The result carries the new state and the
  proceeds transferred to the caller.
\<close>

definition sellCryptocurrency ::
  "contract \<Rightarrow> msg \<Rightarrow> string \<Rightarrow> uint256 \<Rightarrow> error + contract \<times> uint256" where
  "sellCryptocurrency st m sy amt =
     (if \<not> isActive (cryptocurrencies st sy) then Inl NotRegistered
      else if \<not> 0 < amt then Inl InvalidAmount
      else if \<not> amt \<le> userBalances st (sender m) sy then Inl InsufficientBalance
      else case checked_mul amt (price (cryptocurrencies st sy)) of
        None \<Rightarrow> Inl Panic
      | Some product \<Rightarrow>
          let saleValue = product div 10 ^ 18 in
          if \<not> unat saleValue \<le> reserve st then Inl InsufficientReserve
          else case checked_add (transactionCount st) 1 of
            None \<Rightarrow> Inl Panic
          | Some cnt \<Rightarrow>
              let newTransaction = \<lparr>txId = cnt, user = sender m, cryptoSymbol = sy,
                    amount = amt, txPrice = price (cryptocurrencies st sy),
                    transactionType = ''sell'', timestamp = blockTimestamp m,
                    completed = True\<rparr> in
              case checked_sub (userBalances st (sender m) sy) amt of
                None \<Rightarrow> Inl Panic
              | Some bal \<Rightarrow>
                  if \<not> senderReceives m then Inl TransferFailed
                  else
                    Inr (st\<lparr>
                      transactionCount := cnt,
                      transactions := (transactions st)(cnt := newTransaction),
                      userTransactions := (userTransactions st)
                        (sender m := userTransactions st (sender m) @ [cnt]),
                      userBalances := (userBalances st)
                        (sender m := (userBalances st (sender m))(sy := bal)),
                      reserve := reserve st - unat saleValue,
                      events := events st @ [CryptoSold cnt (sender m) sy amt
                        (price (cryptocurrencies st sy)) (blockTimestamp m)]\<rparr>,
                      saleValue))"

definition depositETH :: "contract \<Rightarrow> msg \<Rightarrow> uint256 \<Rightarrow> error + contract" where
  "depositETH st m v =
     (if sender m \<noteq> owner st then Inl NotOwner
      else if \<not> 0 < v then Inl (Revert ''Must send ETH'')
      else Inr (st\<lparr>reserve := reserve st + unat v\<rparr>))"

definition withdrawETH :: "contract \<Rightarrow> msg \<Rightarrow> uint256 \<Rightarrow> error + contract \<times> uint256" where
  "withdrawETH st m amt =
     (if sender m \<noteq> owner st then Inl NotOwner
      else if \<not> unat amt \<le> reserve st then Inl (Revert ''Insufficient contract balance'')
      else if \<not> senderReceives m then Inl TransferFailed
      else Inr (st\<lparr>reserve := reserve st - unat amt\<rparr>, amt))"

subsection \<open>Read-only functions\<close>

definition getUserBalance :: "contract \<Rightarrow> address \<Rightarrow> string \<Rightarrow> uint256" where
  "getUserBalance st u sy = userBalances st u sy"

definition getUserTransactions :: "contract \<Rightarrow> address \<Rightarrow> uint256 list" where
  "getUserTransactions st u = userTransactions st u"

definition getTransaction :: "contract \<Rightarrow> uint256 \<Rightarrow> Transaction" where
  "getTransaction st i = transactions st i"

definition getCryptoPrice :: "contract \<Rightarrow> string \<Rightarrow> error + uint256" where
  "getCryptoPrice st sy =
     (if \<not> isActive (cryptocurrencies st sy) then Inl NotRegistered
      else Inr (price (cryptocurrencies st sy)))"

definition getSupportedCryptos :: "contract \<Rightarrow> string list" where
  "getSupportedCryptos st = supportedCryptos st"

subsection \<open>Exact cost, a deployment and the reachable states\<close>

text \<open>
  The cost of \<open>amt\<close> units in exact arithmetic, \<open>amount \<times> price / 10\<^sup>1\<^sup>8\<close> rounded
  down, as the specification words it; the contract computes it in 256 bits.
\<close>

definition exactCost :: "contract \<Rightarrow> string \<Rightarrow> uint256 \<Rightarrow> nat" where
  "exactCost st sy amt = unat amt * unat (price (cryptocurrencies st sy)) div 10 ^ 18"

definition deployerMsg :: msg where
  "deployerMsg = \<lparr>sender = 1, blockTimestamp = 1000, senderReceives = True\<rparr>"

definition traderMsg :: msg where
  "traderMsg = \<lparr>sender = 2, blockTimestamp = 2000, senderReceives = True\<rparr>"

definition vaultMsg :: msg where
  "vaultMsg = \<lparr>sender = 2, blockTimestamp = 3000, senderReceives = False\<rparr>"

definition deployed :: contract where
  "deployed = emptyContract\<lparr>owner := 1,
     cryptocurrencies := (\<lambda>_. zeroCryptoCurrency)
       (''BTC'' := \<lparr>symbol = ''BTC'', price = 30000 * 10 ^ 18, isActive = True\<rparr>,
        ''ETH'' := \<lparr>symbol = ''ETH'', price = 1 * 10 ^ 18, isActive = True\<rparr>,
        ''ADA'' := \<lparr>symbol = ''ADA'', price = 5 * 10 ^ 15, isActive = True\<rparr>,
        ''DOT'' := \<lparr>symbol = ''DOT'', price = 10 * 10 ^ 15, isActive = True\<rparr>),
     supportedCryptos := [''BTC'', ''ETH'', ''ADA'', ''DOT''],
     events := [CryptoAdded ''BTC'' (30000 * 10 ^ 18), CryptoAdded ''ETH'' (1 * 10 ^ 18),
       CryptoAdded ''ADA'' (5 * 10 ^ 15), CryptoAdded ''DOT'' (10 * 10 ^ 15)]\<rparr>"

text \<open>
  The states the contract can be in: the constructor's result, followed by any number of
  successful calls (a reverted call changes nothing) and plain ether receipts.
\<close>

inductive reachable :: "contract \<Rightarrow> bool" where
  r_deploy: "constructor m = Inr st \<Longrightarrow> reachable st"
| r_add: "reachable st \<Longrightarrow> addCryptocurrency st m sy p = Inr st' \<Longrightarrow> reachable st'"
| r_update: "reachable st \<Longrightarrow> updateCryptoPrice st m sy p = Inr st' \<Longrightarrow> reachable st'"
| r_buy: "reachable st \<Longrightarrow> buyCryptocurrency st m v sy amt = Inr (st', r) \<Longrightarrow> reachable st'"
| r_sell: "reachable st \<Longrightarrow> sellCryptocurrency st m sy amt = Inr (st', r) \<Longrightarrow> reachable st'"
| r_deposit: "reachable st \<Longrightarrow> depositETH st m v = Inr st' \<Longrightarrow> reachable st'"
| r_withdraw: "reachable st \<Longrightarrow> withdrawETH st m amt = Inr (st', r) \<Longrightarrow> reachable st'"
| r_receive: "reachable st \<Longrightarrow> reachable (st\<lparr>reserve := reserve st + unat (v::uint256)\<rparr>)"

definition unusedIdsZero :: "contract \<Rightarrow> bool" where
  "unusedIdsZero st \<longleftrightarrow>
     (\<forall>i. i = 0 \<or> transactionCount st < i \<longrightarrow> transactions st i = zeroTransaction)"

definition unregisteredZero :: "contract \<Rightarrow> bool" where
  "unregisteredZero st \<longleftrightarrow>
     (\<forall>u sy. \<not> isActive (cryptocurrencies st sy) \<longrightarrow> userBalances st u sy = 0)"

definition neverTraded :: "contract \<Rightarrow> address \<Rightarrow> bool" where
  "neverTraded st u \<longleftrightarrow>
     (\<forall>i. 0 < i \<and> i \<le> transactionCount st \<longrightarrow> user (transactions st i) \<noteq> u)"

definition strangersZero :: "contract \<Rightarrow> bool" where
  "strangersZero st \<longleftrightarrow>
     (\<forall>u. neverTraded st u \<longrightarrow> userTransactions st u = [] \<and> (\<forall>sy. userBalances st u sy = 0))"

definition ledgerInv :: "contract \<Rightarrow> bool" where
  "ledgerInv st \<longleftrightarrow> unusedIdsZero st \<and> unregisteredZero st \<and> strangersZero st"

subsection \<open>Arithmetic lemmas\<close>

lemma checked_mul_fits:
  "unat a * unat b < 2 ^ 256 \<Longrightarrow> checked_mul a b = Some (a * b)"
  by (simp add: checked_mul_def)

lemma unat_mul_fits:
  fixes a b :: uint256
  shows "unat a * unat b < 2 ^ 256 \<Longrightarrow> unat (a * b) = unat a * unat b"
  using unat_mult_lem [of a b] by simp

lemma unat_add_fits:
  fixes a b :: uint256
  shows "unat a + unat b < 2 ^ 256 \<Longrightarrow> unat (a + b) = unat a + unat b"
  using unat_add_lem [of a b] by simp

lemma unat_scale: "unat ((10::uint256) ^ 18) = 10 ^ 18"
  by simp

lemma unat_div_scale:
  fixes a :: uint256
  shows "unat (a div 10 ^ 18) = unat a div 10 ^ 18"
  by (simp add: unat_div)

lemma cost_word:
  "unat amt * unat (price (cryptocurrencies st sy)) < 2 ^ 256 \<Longrightarrow>
   unat (amt * price (cryptocurrencies st sy) div 10 ^ 18) = exactCost st sy amt"
  by (simp add: exactCost_def unat_div unat_mul_fits)

lemma buy_not_registered:
  "\<not> isActive (cryptocurrencies st sy) \<Longrightarrow> buyCryptocurrency st m v sy amt = Inl NotRegistered"
  by (simp add: buyCryptocurrency_def)

lemma buy_invalid_amount:
  "isActive (cryptocurrencies st sy) \<Longrightarrow> amt = 0 \<Longrightarrow> buyCryptocurrency st m v sy amt = Inl InvalidAmount"
  by (simp add: buyCryptocurrency_def)

lemma buy_overflow:
  "isActive (cryptocurrencies st sy) \<Longrightarrow> 0 < amt \<Longrightarrow>
   \<not> unat amt * unat (price (cryptocurrencies st sy)) < 2 ^ 256 \<Longrightarrow>
   buyCryptocurrency st m v sy amt = Inl Panic"
  by (simp add: buyCryptocurrency_def checked_mul_def)

lemma buy_insufficient:
  "isActive (cryptocurrencies st sy) \<Longrightarrow> 0 < amt \<Longrightarrow>
   unat amt * unat (price (cryptocurrencies st sy)) < 2 ^ 256 \<Longrightarrow>
   unat v < exactCost st sy amt \<Longrightarrow>
   buyCryptocurrency st m v sy amt = Inl InsufficientPayment"
  using cost_word [of amt st sy]
  by (simp add: buyCryptocurrency_def checked_mul_def word_le_nat_alt Let_def)

lemma buy_success:
  assumes act: "isActive (cryptocurrencies st sy)" and pos: "0 < amt"
    and fits: "unat amt * unat (price (cryptocurrencies st sy)) < 2 ^ 256"
    and paid: "exactCost st sy amt \<le> unat v"
    and cnt: "unat (transactionCount st) + 1 < 2 ^ 256"
    and bal: "unat (userBalances st (sender m) sy) + unat amt < 2 ^ 256"
    and recv: "unat v = exactCost st sy amt \<or> senderReceives m"
  shows "\<exists>st' refund. buyCryptocurrency st m v sy amt = Inr (st', refund)
     \<and> unat refund = unat v - exactCost st sy amt
     \<and> unat (transactionCount st') = unat (transactionCount st) + 1
     \<and> transactions st' = (transactions st)(transactionCount st' :=
          \<lparr>txId = transactionCount st', user = sender m, cryptoSymbol = sy, amount = amt,
           txPrice = price (cryptocurrencies st sy), transactionType = ''buy'',
           timestamp = blockTimestamp m, completed = True\<rparr>)
     \<and> userTransactions st' = (userTransactions st)
          (sender m := userTransactions st (sender m) @ [transactionCount st'])
     \<and> unat (userBalances st' (sender m) sy) = unat (userBalances st (sender m) sy) + unat amt
     \<and> (\<forall>u s. (u, s) \<noteq> (sender m, sy) \<longrightarrow> userBalances st' u s = userBalances st u s)
     \<and> reserve st' = reserve st + exactCost st sy amt
     \<and> cryptocurrencies st' = cryptocurrencies st
     \<and> supportedCryptos st' = supportedCryptos st
     \<and> owner st' = owner st"
proof -
  let ?cost = "amt * price (cryptocurrencies st sy) div 10 ^ 18"
  have c: "unat ?cost = exactCost st sy amt" using fits by (rule cost_word)
  have le: "?cost \<le> v" using paid c by (simp add: word_le_nat_alt)
  have one: "unat (transactionCount st) + unat (1::uint256) < 2 ^ 256" using cnt by simp
  have ca: "checked_add (transactionCount st) 1 = Some (transactionCount st + 1)"
    using one by (simp add: checked_add_def)
  have ua: "unat (transactionCount st + 1) = unat (transactionCount st) + 1"
    using unat_add_fits [OF one] by simp
  have cb: "checked_add (userBalances st (sender m) sy) amt = Some (userBalances st (sender m) sy + amt)"
    using bal by (simp add: checked_add_def)
  have ub: "unat (userBalances st (sender m) sy + amt) = unat (userBalances st (sender m) sy) + unat amt"
    using bal by (rule unat_add_fits)
  have lt: "?cost < v \<Longrightarrow> senderReceives m"
    using recv c by (auto simp: word_less_nat_alt)
  have rf: "unat (if ?cost < v then v - ?cost else 0) = unat v - exactCost st sy amt"
    using le c by (auto simp: unat_sub word_less_nat_alt word_le_nat_alt)
  have rs: "reserve st + unat v - unat (if ?cost < v then v - ?cost else 0) = reserve st + exactCost st sy amt"
    using rf paid by simp
  show ?thesis
    using act pos le lt rf rs ua ub
    by (auto simp: buyCryptocurrency_def checked_mul_fits [OF fits] ca cb Let_def fun_eq_iff)
qed

lemma sell_not_registered:
  "\<not> isActive (cryptocurrencies st sy) \<Longrightarrow> sellCryptocurrency st m sy amt = Inl NotRegistered"
  by (simp add: sellCryptocurrency_def)

lemma sell_invalid_amount:
  "isActive (cryptocurrencies st sy) \<Longrightarrow> amt = 0 \<Longrightarrow> sellCryptocurrency st m sy amt = Inl InvalidAmount"
  by (simp add: sellCryptocurrency_def)

lemma sell_insufficient_balance:
  "isActive (cryptocurrencies st sy) \<Longrightarrow> 0 < amt \<Longrightarrow>
   unat (userBalances st (sender m) sy) < unat amt \<Longrightarrow>
   sellCryptocurrency st m sy amt = Inl InsufficientBalance"
  by (simp add: sellCryptocurrency_def word_le_nat_alt)

lemma sell_overflow:
  "isActive (cryptocurrencies st sy) \<Longrightarrow> 0 < amt \<Longrightarrow>
   unat amt \<le> unat (userBalances st (sender m) sy) \<Longrightarrow>
   \<not> unat amt * unat (price (cryptocurrencies st sy)) < 2 ^ 256 \<Longrightarrow>
   sellCryptocurrency st m sy amt = Inl Panic"
  by (simp add: sellCryptocurrency_def checked_mul_def word_le_nat_alt)

lemma sell_insufficient_reserve:
  "isActive (cryptocurrencies st sy) \<Longrightarrow> 0 < amt \<Longrightarrow>
   unat amt \<le> unat (userBalances st (sender m) sy) \<Longrightarrow>
   unat amt * unat (price (cryptocurrencies st sy)) < 2 ^ 256 \<Longrightarrow>
   reserve st < exactCost st sy amt \<Longrightarrow>
   sellCryptocurrency st m sy amt = Inl InsufficientReserve"
  using cost_word [of amt st sy]
  by (simp add: sellCryptocurrency_def checked_mul_def word_le_nat_alt Let_def)

lemma sell_success:
  assumes act: "isActive (cryptocurrencies st sy)" and pos: "0 < amt"
    and has: "unat amt \<le> unat (userBalances st (sender m) sy)"
    and fits: "unat amt * unat (price (cryptocurrencies st sy)) < 2 ^ 256"
    and res: "exactCost st sy amt \<le> reserve st"
    and cnt: "unat (transactionCount st) + 1 < 2 ^ 256"
    and recv: "senderReceives m"
  shows "\<exists>st' proceeds. sellCryptocurrency st m sy amt = Inr (st', proceeds)
     \<and> unat proceeds = exactCost st sy amt
     \<and> unat (transactionCount st') = unat (transactionCount st) + 1
     \<and> transactions st' = (transactions st)(transactionCount st' :=
          \<lparr>txId = transactionCount st', user = sender m, cryptoSymbol = sy, amount = amt,
           txPrice = price (cryptocurrencies st sy), transactionType = ''sell'',
           timestamp = blockTimestamp m, completed = True\<rparr>)
     \<and> userTransactions st' = (userTransactions st)
          (sender m := userTransactions st (sender m) @ [transactionCount st'])
     \<and> unat (userBalances st' (sender m) sy) = unat (userBalances st (sender m) sy) - unat amt
     \<and> (\<forall>u s. (u, s) \<noteq> (sender m, sy) \<longrightarrow> userBalances st' u s = userBalances st u s)
     \<and> reserve st' = reserve st - exactCost st sy amt
     \<and> cryptocurrencies st' = cryptocurrencies st
     \<and> supportedCryptos st' = supportedCryptos st
     \<and> owner st' = owner st"
proof -
  let ?val = "amt * price (cryptocurrencies st sy) div 10 ^ 18"
  have c: "unat ?val = exactCost st sy amt" using fits by (rule cost_word)
  have le: "amt \<le> userBalances st (sender m) sy" using has by (simp add: word_le_nat_alt)
  have one: "unat (transactionCount st) + unat (1::uint256) < 2 ^ 256" using cnt by simp
  have ca: "checked_add (transactionCount st) 1 = Some (transactionCount st + 1)"
    using one by (simp add: checked_add_def)
  have ua: "unat (transactionCount st + 1) = unat (transactionCount st) + 1"
    using unat_add_fits [OF one] by simp
  have cs: "checked_sub (userBalances st (sender m) sy) amt = Some (userBalances st (sender m) sy - amt)"
    using has by (simp add: checked_sub_def)
  have us: "unat (userBalances st (sender m) sy - amt) = unat (userBalances st (sender m) sy) - unat amt"
    using le by (simp add: unat_sub)
  show ?thesis
    using act pos le res recv c ua us
    by (auto simp: sellCryptocurrency_def checked_mul_fits [OF fits] ca cs Let_def fun_eq_iff)
qed

lemma constructor_deployed: "constructor deployerMsg = Inr deployed"
  by (simp add: constructor_def addCryptocurrency_def emptyContract_def zeroCryptoCurrency_def
      deployerMsg_def deployed_def fun_upd_twist)

subsection \<open>Invariants of the reachable states\<close>

lemma next_id:
  assumes "checked_add c 1 = Some cnt"
  shows "c < cnt" and "cnt \<noteq> 0" and "\<And>i. i \<le> c \<Longrightarrow> i \<noteq> cnt" and "\<And>i. cnt < i \<Longrightarrow> c < i"
    and "\<And>i. i \<le> cnt \<Longrightarrow> i \<noteq> cnt \<Longrightarrow> i \<le> c"
proof -
  have u: "unat cnt = unat c + 1"
    using assms unat_add_fits [of c 1] by (auto simp: checked_add_def split: if_splits)
  show "c < cnt" using u by (simp add: word_less_nat_alt)
  show "cnt \<noteq> 0" using u by (auto simp: unat_eq_0 [symmetric] simp del: unat_eq_0)
  show "\<And>i. i \<le> c \<Longrightarrow> i \<noteq> cnt" using u by (auto simp: word_le_nat_alt)
  show "\<And>i. cnt < i \<Longrightarrow> c < i" using u by (auto simp: word_less_nat_alt)
  show "\<And>i. i \<le> cnt \<Longrightarrow> i \<noteq> cnt \<Longrightarrow> i \<le> c"
  proof -
    fix i assume "i \<le> cnt" "i \<noteq> cnt"
    then have "unat i \<le> unat cnt" "unat i \<noteq> unat cnt"
      by (auto simp: word_le_nat_alt simp: word_unat_eq_iff)
    then show "i \<le> c" using u by (simp add: word_le_nat_alt)
  qed
qed

lemma ledgerInv_frame:
  assumes "ledgerInv st"
    and "transactions st' = transactions st" and "transactionCount st' = transactionCount st"
    and "userBalances st' = userBalances st" and "userTransactions st' = userTransactions st"
    and "\<And>s. isActive (cryptocurrencies st s) \<Longrightarrow> isActive (cryptocurrencies st' s)"
  shows "ledgerInv st'"
  using assms
  unfolding ledgerInv_def unusedIdsZero_def unregisteredZero_def strangersZero_def neverTraded_def
  by metis

lemma ledgerInv_empty: "ledgerInv (emptyContract\<lparr>owner := a, transactionCount := 0\<rparr>)"
  by (simp add: ledgerInv_def unusedIdsZero_def unregisteredZero_def strangersZero_def
      neverTraded_def emptyContract_def)

lemma ledgerInv_add:
  "ledgerInv st \<Longrightarrow> addCryptocurrency st m sy p = Inr st' \<Longrightarrow> ledgerInv st'"
  by (erule ledgerInv_frame) (auto simp: addCryptocurrency_def split: if_splits)

lemma ledgerInv_update:
  "ledgerInv st \<Longrightarrow> updateCryptoPrice st m sy p = Inr st' \<Longrightarrow> ledgerInv st'"
  by (erule ledgerInv_frame) (auto simp: updateCryptoPrice_def split: if_splits)

lemma ledgerInv_deposit:
  "ledgerInv st \<Longrightarrow> depositETH st m v = Inr st' \<Longrightarrow> ledgerInv st'"
  by (erule ledgerInv_frame) (auto simp: depositETH_def split: if_splits)

lemma ledgerInv_withdraw:
  "ledgerInv st \<Longrightarrow> withdrawETH st m amt = Inr (st', r) \<Longrightarrow> ledgerInv st'"
  by (erule ledgerInv_frame) (auto simp: withdrawETH_def split: if_splits)

lemma ledgerInv_receive:
  "ledgerInv st \<Longrightarrow> ledgerInv (st\<lparr>reserve := reserve st + n\<rparr>)"
  by (erule ledgerInv_frame) auto

lemma ledgerInv_constructor: "constructor m = Inr st \<Longrightarrow> ledgerInv st"
  unfolding constructor_def
  by (auto split: sum.splits intro: ledgerInv_add [OF ledgerInv_add [OF ledgerInv_add [OF ledgerInv_add [OF ledgerInv_empty]]]])

text \<open>What a successful buy or sell writes, whatever the amounts.\<close>

lemma trade_shape_buy:
  assumes "buyCryptocurrency st m v sy amt = Inr (st', r)"
  shows "isActive (cryptocurrencies st sy)"
    and "\<exists>cnt. checked_add (transactionCount st) 1 = Some cnt
      \<and> user (transactions st' cnt) = sender m
      \<and> transactionCount st' = cnt
      \<and> (\<forall>i. i \<noteq> cnt \<longrightarrow> transactions st' i = transactions st i)
      \<and> userTransactions st' = (userTransactions st)(sender m := userTransactions st (sender m) @ [cnt])
      \<and> (\<forall>u s. (u, s) \<noteq> (sender m, sy) \<longrightarrow> userBalances st' u s = userBalances st u s)
      \<and> cryptocurrencies st' = cryptocurrencies st"
  using assms
  by (auto simp: buyCryptocurrency_def Let_def split: if_splits option.splits)

lemma trade_shape_sell:
  assumes "sellCryptocurrency st m sy amt = Inr (st', r)"
  shows "isActive (cryptocurrencies st sy)"
    and "\<exists>cnt. checked_add (transactionCount st) 1 = Some cnt
      \<and> user (transactions st' cnt) = sender m
      \<and> transactionCount st' = cnt
      \<and> (\<forall>i. i \<noteq> cnt \<longrightarrow> transactions st' i = transactions st i)
      \<and> userTransactions st' = (userTransactions st)(sender m := userTransactions st (sender m) @ [cnt])
      \<and> (\<forall>u s. (u, s) \<noteq> (sender m, sy) \<longrightarrow> userBalances st' u s = userBalances st u s)
      \<and> cryptocurrencies st' = cryptocurrencies st"
  using assms
  by (auto simp: sellCryptocurrency_def Let_def split: if_splits option.splits)

lemma ledgerInv_trade:
  assumes inv: "ledgerInv st" and act: "isActive (cryptocurrencies st sy)"
    and ca: "checked_add (transactionCount st) 1 = Some cnt" and ur: "user (transactions st' cnt) = a"
    and tc: "transactionCount st' = cnt"
    and tr: "\<forall>i. i \<noteq> cnt \<longrightarrow> transactions st' i = transactions st i"
    and ut: "userTransactions st' = (userTransactions st)(a := userTransactions st a @ [cnt])"
    and ub: "\<forall>u s. (u, s) \<noteq> (a, sy) \<longrightarrow> userBalances st' u s = userBalances st u s"
    and cc: "cryptocurrencies st' = cryptocurrencies st"
  shows "ledgerInv st'"
proof -
  note id = next_id [OF ca]
  have 1: "unusedIdsZero st'"
    unfolding unusedIdsZero_def
  proof (intro allI impI)
    fix i assume h: "i = 0 \<or> transactionCount st' < i"
    then have "i \<noteq> cnt" using id(2) tc by auto
    moreover have "i = 0 \<or> transactionCount st < i" using h id(4) tc by auto
    ultimately show "transactions st' i = zeroTransaction"
      using inv tr by (auto simp: ledgerInv_def unusedIdsZero_def)
  qed
  have 2: "unregisteredZero st'"
    unfolding unregisteredZero_def
  proof (intro allI impI)
    fix u s assume h: "\<not> isActive (cryptocurrencies st' s)"
    then have "s \<noteq> sy" using act cc by auto
    then have "userBalances st' u s = userBalances st u s" using ub by simp
    then show "userBalances st' u s = 0"
      using inv h cc by (auto simp: ledgerInv_def unregisteredZero_def)
  qed
  have 3: "strangersZero st'"
    unfolding strangersZero_def
  proof (intro allI impI)
    fix u assume h: "neverTraded st' u"
    have "0 < cnt" using id(2) by (simp add: word_neq_0_conv)
    then have ne: "u \<noteq> a" using h tc tr ur by (auto simp: neverTraded_def)
    have "neverTraded st u"
      unfolding neverTraded_def
    proof (intro allI impI)
      fix i assume i: "0 < i \<and> i \<le> transactionCount st"
      then have "i \<noteq> cnt" using id(3) by auto
      moreover have "i \<le> transactionCount st'" using i id(1) tc by auto
      ultimately show "user (transactions st i) \<noteq> u"
        using h i tr by (auto simp: neverTraded_def)
    qed
    then have "userTransactions st u = [] \<and> (\<forall>s. userBalances st u s = 0)"
      using inv by (auto simp: ledgerInv_def strangersZero_def)
    then show "userTransactions st' u = [] \<and> (\<forall>s. userBalances st' u s = 0)"
      using ne ut ub by auto
  qed
  show ?thesis using 1 2 3 by (simp add: ledgerInv_def)
qed

lemma ledgerInv_buy:
  "ledgerInv st \<Longrightarrow> buyCryptocurrency st m v sy amt = Inr (st', r) \<Longrightarrow> ledgerInv st'"
  using trade_shape_buy [of st m v sy amt st' r] ledgerInv_trade [of st sy _ st' "sender m"]
  by blast

lemma ledgerInv_sell:
  "ledgerInv st \<Longrightarrow> sellCryptocurrency st m sy amt = Inr (st', r) \<Longrightarrow> ledgerInv st'"
  using trade_shape_sell [of st m sy amt st' r] ledgerInv_trade [of st sy _ st' "sender m"]
  by blast

lemma reachable_ledgerInv: "reachable st \<Longrightarrow> ledgerInv st"
proof (induction rule: reachable.induct)
  case (r_deploy m st) then show ?case by (rule ledgerInv_constructor)
next
  case (r_add st m sy p st') then show ?case by (blast intro: ledgerInv_add)
next
  case (r_update st m sy p st') then show ?case by (blast intro: ledgerInv_update)
next
  case (r_buy st m v sy amt st' r) then show ?case by (blast intro: ledgerInv_buy)
next
  case (r_sell st m sy amt st' r) then show ?case by (blast intro: ledgerInv_sell)
next
  case (r_deposit st m v st') then show ?case by (blast intro: ledgerInv_deposit)
next
  case (r_withdraw st m amt st' r) then show ?case by (blast intro: ledgerInv_withdraw)
next
  case (r_receive st v) then show ?case by (blast intro: ledgerInv_receive)
qed

subsection \<open>A trading scenario\<close>

text \<open>
  Three successful calls after deployment: the owner lists a token \<open>TKN\<close> at a price of
  1 wei per unit, a trader buys \<open>10\<^sup>4\<^sup>0\<close> base units of it for \<open>10\<^sup>2\<^sup>2\<close> wei, and the
  owner raises the price to \<open>10\<^sup>4\<^sup>0\<close> wei per unit.
\<close>

definition listed :: contract where
  "listed = deployed\<lparr>
     cryptocurrencies := (cryptocurrencies deployed)
       (''TKN'' := \<lparr>symbol = ''TKN'', price = 1, isActive = True\<rparr>),
     supportedCryptos := [''BTC'', ''ETH'', ''ADA'', ''DOT'', ''TKN''],
     events := events deployed @ [CryptoAdded ''TKN'' 1]\<rparr>"

lemma listed_step: "addCryptocurrency deployed deployerMsg ''TKN'' 1 = Inr listed"
  by (simp add: addCryptocurrency_def deployed_def emptyContract_def zeroCryptoCurrency_def
      deployerMsg_def listed_def)

definition bought :: contract where
  "bought = listed\<lparr>
     transactionCount := 1,
     transactions := (transactions listed)
       (1 := \<lparr>txId = 1, user = 2, cryptoSymbol = ''TKN'', amount = 10 ^ 40, txPrice = 1,
          transactionType = ''buy'', timestamp = 2000, completed = True\<rparr>),
     userTransactions := (userTransactions listed)(2 := [1]),
     userBalances := (userBalances listed)(2 := (userBalances listed 2)(''TKN'' := 10 ^ 40)),
     reserve := 10 ^ 22,
     events := events listed @ [CryptoBought 1 2 ''TKN'' (10 ^ 40) 1 2000]\<rparr>"

lemma listed_fields: "isActive (cryptocurrencies listed ''TKN'')" "price (cryptocurrencies listed ''TKN'') = 1"
  "transactionCount listed = 0" "userBalances listed 2 ''TKN'' = 0" "reserve listed = 0"
  "userTransactions listed 2 = []"
  by (simp_all add: listed_def deployed_def emptyContract_def)

lemma bought_step: "buyCryptocurrency listed traderMsg (10 ^ 22) ''TKN'' (10 ^ 40) = Inr (bought, 0)"
  by (simp add: buyCryptocurrency_def listed_fields checked_mul_def checked_add_def traderMsg_def bought_def Let_def)


definition overpriced :: contract where
  "overpriced = bought\<lparr>
     cryptocurrencies := (cryptocurrencies bought)
       (''TKN'' := (cryptocurrencies bought ''TKN'')\<lparr>price := 10 ^ 40\<rparr>),
     events := events bought @ [CryptoPriceUpdated ''TKN'' (10 ^ 40)]\<rparr>"

lemma bought_owner: "isActive (cryptocurrencies bought ''TKN'')" "owner bought = 1"
  by (simp_all add: bought_def listed_def deployed_def emptyContract_def)

lemma overpriced_step: "updateCryptoPrice bought deployerMsg ''TKN'' (10 ^ 40) = Inr overpriced"
  by (simp add: updateCryptoPrice_def bought_owner deployerMsg_def overpriced_def)

lemma overpriced_reachable: "reachable overpriced"
  by (rule r_update [OF r_buy [OF r_add [OF r_deploy [OF constructor_deployed] listed_step] bought_step] overpriced_step])

lemma overpriced_fields: "isActive (cryptocurrencies overpriced ''TKN'')"
  "price (cryptocurrencies overpriced ''TKN'') = 10 ^ 40"
  "userBalances overpriced 2 ''TKN'' = 10 ^ 40" "reserve overpriced = 10 ^ 22"
  by (simp_all add: overpriced_def bought_def listed_def deployed_def emptyContract_def)

lemma deployed_fields:
  "isActive (cryptocurrencies deployed ''ETH'')"
  "price (cryptocurrencies deployed ''ETH'') = 10 ^ 18"
  "isActive (cryptocurrencies deployed ''BTC'')"
  "price (cryptocurrencies deployed ''BTC'') = 30000 * 10 ^ 18"
  "transactionCount deployed = 0" "userBalances deployed a s = 0" "reserve deployed = 0"
  by (simp_all add: deployed_def emptyContract_def)

lemma bought_fields:
  "isActive (cryptocurrencies bought ''TKN'')"
  "price (cryptocurrencies bought ''TKN'') = 1"
  "transactionCount bought = 1" "userBalances bought 2 ''TKN'' = 10 ^ 40"
  "reserve bought = 10 ^ 22"
  by (simp_all add: bought_def listed_def deployed_def emptyContract_def)

lemma bought_reachable: "reachable bought"
  by (rule r_buy [OF r_add [OF r_deploy [OF constructor_deployed] listed_step] bought_step])

text \<open>A fourth state: the owner withdraws the whole reserve after the purchase.\<close>

definition drained :: contract where
  "drained = bought\<lparr>reserve := 0\<rparr>"

lemma drained_step: "withdrawETH bought deployerMsg (10 ^ 22) = Inr (drained, 10 ^ 22)"
  by (simp add: withdrawETH_def bought_owner bought_fields deployerMsg_def drained_def)

lemma drained_reachable: "reachable drained"
  by (rule r_withdraw [OF bought_reachable drained_step])

lemma drained_fields:
  "isActive (cryptocurrencies drained ''TKN'')"
  "price (cryptocurrencies drained ''TKN'') = 1"
  "userBalances drained 2 ''TKN'' = 10 ^ 40" "reserve drained = 0"
  by (simp_all add: drained_def bought_fields)

lemma unlisted_XYZ:
  "\<not> isActive (cryptocurrencies deployed ''XYZ'')" "\<not> isActive (cryptocurrencies bought ''XYZ'')"
  by (simp_all add: bought_def listed_def deployed_def zeroCryptoCurrency_def)

subsection \<open>The asset list and the registry agree\<close>

definition listedInv :: "contract \<Rightarrow> bool" where
  "listedInv st \<longleftrightarrow> set (supportedCryptos st) = {sy. isActive (cryptocurrencies st sy)}"

lemma listedInv_frame:
  "listedInv st \<Longrightarrow> supportedCryptos st' = supportedCryptos st \<Longrightarrow>
   (\<And>s. isActive (cryptocurrencies st' s) = isActive (cryptocurrencies st s)) \<Longrightarrow> listedInv st'"
  by (simp add: listedInv_def)

lemma listedInv_empty: "listedInv (emptyContract\<lparr>owner := a, transactionCount := 0\<rparr>)"
  by (simp add: listedInv_def emptyContract_def zeroCryptoCurrency_def)

lemma listedInv_add:
  "listedInv st \<Longrightarrow> addCryptocurrency st m sy p = Inr st' \<Longrightarrow> listedInv st'"
  by (auto simp: listedInv_def addCryptocurrency_def split: if_splits)

lemma listedInv_update:
  "listedInv st \<Longrightarrow> updateCryptoPrice st m sy p = Inr st' \<Longrightarrow> listedInv st'"
  by (erule listedInv_frame) (auto simp: updateCryptoPrice_def split: if_splits)

lemma listedInv_buy:
  "listedInv st \<Longrightarrow> buyCryptocurrency st m v sy amt = Inr (st', r) \<Longrightarrow> listedInv st'"
  by (erule listedInv_frame)
    (auto simp: buyCryptocurrency_def Let_def split: if_splits option.splits)

lemma listedInv_sell:
  "listedInv st \<Longrightarrow> sellCryptocurrency st m sy amt = Inr (st', r) \<Longrightarrow> listedInv st'"
  by (erule listedInv_frame)
    (auto simp: sellCryptocurrency_def Let_def split: if_splits option.splits)

lemma listedInv_deposit:
  "listedInv st \<Longrightarrow> depositETH st m v = Inr st' \<Longrightarrow> listedInv st'"
  by (erule listedInv_frame) (auto simp: depositETH_def split: if_splits)

lemma listedInv_withdraw:
  "listedInv st \<Longrightarrow> withdrawETH st m amt = Inr (st', r) \<Longrightarrow> listedInv st'"
  by (erule listedInv_frame) (auto simp: withdrawETH_def split: if_splits)

lemma listedInv_constructor: "constructor m = Inr st \<Longrightarrow> listedInv st"
  unfolding constructor_def
  by (auto split: sum.splits intro: listedInv_add [OF listedInv_add [OF listedInv_add [OF listedInv_add [OF listedInv_empty]]]])

lemma reachable_listedInv: "reachable st \<Longrightarrow> listedInv st"
proof (induction rule: reachable.induct)
  case (r_deploy m st) then show ?case by (rule listedInv_constructor)
next
  case (r_add st m sy p st') then show ?case by (blast intro: listedInv_add)
next
  case (r_update st m sy p st') then show ?case by (blast intro: listedInv_update)
next
  case (r_buy st m v sy amt st' r) then show ?case by (blast intro: listedInv_buy)
next
  case (r_sell st m sy amt st' r) then show ?case by (blast intro: listedInv_sell)
next
  case (r_deposit st m v st') then show ?case by (blast intro: listedInv_deposit)
next
  case (r_withdraw st m amt st' r) then show ?case by (blast intro: listedInv_withdraw)
next
  case (r_receive st v) then show ?case by (auto elim: listedInv_frame)
qed

subsection \<open>Buying\<close>

text \<open>
  Claim C1, as amended. \<open>buyCryptocurrency\<close> fails with \<open>NotRegistered\<close> for a symbol
  that is not registered and with \<open>InvalidAmount\<close> for an amount of zero. For a
  registered symbol and a positive amount, the product \<open>amount \<times> price\<close> is computed in
  256 bits: when it does not fit the call fails with an arithmetic panic. When it fits,
  cost = \<open>amount \<times> price / 10\<^sup>1\<^sup>8\<close>; a value below the cost fails with
  \<open>InsufficientPayment\<close>; a value of at least the cost, provided the counter and the
  caller's balance do not overflow and the caller accepts the refund when there is one,
  records exactly one new transaction with id = counter + 1, raises the caller's balance
  for that symbol by exactly the amount, leaves every other balance alone, keeps the
  cost in the reserve and sends back exactly value - cost (nothing when they are equal).
  A failing call returns no state at all.
\<close>

theorem buyCryptocurrency_outcomes:
  "(\<not> isActive (cryptocurrencies st sy) \<longrightarrow>
      buyCryptocurrency st m v sy amt = Inl NotRegistered)
   \<and> (isActive (cryptocurrencies st sy) \<and> amt = 0 \<longrightarrow>
      buyCryptocurrency st m v sy amt = Inl InvalidAmount)
   \<and> (isActive (cryptocurrencies st sy) \<and> 0 < amt
        \<and> 2 ^ 256 \<le> unat amt * unat (price (cryptocurrencies st sy)) \<longrightarrow>
      buyCryptocurrency st m v sy amt = Inl Panic)
   \<and> (isActive (cryptocurrencies st sy) \<and> 0 < amt
        \<and> unat amt * unat (price (cryptocurrencies st sy)) < 2 ^ 256
        \<and> unat v < exactCost st sy amt \<longrightarrow>
      buyCryptocurrency st m v sy amt = Inl InsufficientPayment)
   \<and> (isActive (cryptocurrencies st sy) \<and> 0 < amt
        \<and> unat amt * unat (price (cryptocurrencies st sy)) < 2 ^ 256
        \<and> exactCost st sy amt \<le> unat v
        \<and> unat (transactionCount st) + 1 < 2 ^ 256
        \<and> unat (userBalances st (sender m) sy) + unat amt < 2 ^ 256
        \<and> (unat v = exactCost st sy amt \<or> senderReceives m) \<longrightarrow>
      (\<exists>st' refund. buyCryptocurrency st m v sy amt = Inr (st', refund)
        \<and> unat refund = unat v - exactCost st sy amt
        \<and> unat (transactionCount st') = unat (transactionCount st) + 1
        \<and> transactions st' = (transactions st)(transactionCount st' :=
            \<lparr>txId = transactionCount st', user = sender m, cryptoSymbol = sy, amount = amt,
             txPrice = price (cryptocurrencies st sy), transactionType = ''buy'',
             timestamp = blockTimestamp m, completed = True\<rparr>)
        \<and> userTransactions st' = (userTransactions st)
            (sender m := userTransactions st (sender m) @ [transactionCount st'])
        \<and> unat (userBalances st' (sender m) sy)
            = unat (userBalances st (sender m) sy) + unat amt
        \<and> (\<forall>u s. (u, s) \<noteq> (sender m, sy) \<longrightarrow> userBalances st' u s = userBalances st u s)
        \<and> reserve st' = reserve st + exactCost st sy amt
        \<and> cryptocurrencies st' = cryptocurrencies st
        \<and> supportedCryptos st' = supportedCryptos st
        \<and> owner st' = owner st))"
proof (intro conjI impI)
  show "\<not> isActive (cryptocurrencies st sy) \<Longrightarrow>
      buyCryptocurrency st m v sy amt = Inl NotRegistered"
    by (rule buy_not_registered)
next
  assume "isActive (cryptocurrencies st sy) \<and> amt = 0"
  then show "buyCryptocurrency st m v sy amt = Inl InvalidAmount"
    by (simp add: buy_invalid_amount)
next
  assume "isActive (cryptocurrencies st sy) \<and> 0 < amt
        \<and> 2 ^ 256 \<le> unat amt * unat (price (cryptocurrencies st sy))"
  then show "buyCryptocurrency st m v sy amt = Inl Panic"
    by (simp add: buy_overflow)
next
  assume "isActive (cryptocurrencies st sy) \<and> 0 < amt
        \<and> unat amt * unat (price (cryptocurrencies st sy)) < 2 ^ 256
        \<and> unat v < exactCost st sy amt"
  then show "buyCryptocurrency st m v sy amt = Inl InsufficientPayment"
    by (simp add: buy_insufficient)
next
  assume h: "isActive (cryptocurrencies st sy) \<and> 0 < amt
        \<and> unat amt * unat (price (cryptocurrencies st sy)) < 2 ^ 256
        \<and> exactCost st sy amt \<le> unat v
        \<and> unat (transactionCount st) + 1 < 2 ^ 256
        \<and> unat (userBalances st (sender m) sy) + unat amt < 2 ^ 256
        \<and> (unat v = exactCost st sy amt \<or> senderReceives m)"
  then show "\<exists>st' refund. buyCryptocurrency st m v sy amt = Inr (st', refund)
        \<and> unat refund = unat v - exactCost st sy amt
        \<and> unat (transactionCount st') = unat (transactionCount st) + 1
        \<and> transactions st' = (transactions st)(transactionCount st' :=
            \<lparr>txId = transactionCount st', user = sender m, cryptoSymbol = sy, amount = amt,
             txPrice = price (cryptocurrencies st sy), transactionType = ''buy'',
             timestamp = blockTimestamp m, completed = True\<rparr>)
        \<and> userTransactions st' = (userTransactions st)
            (sender m := userTransactions st (sender m) @ [transactionCount st'])
        \<and> unat (userBalances st' (sender m) sy)
            = unat (userBalances st (sender m) sy) + unat amt
        \<and> (\<forall>u s. (u, s) \<noteq> (sender m, sy) \<longrightarrow> userBalances st' u s = userBalances st u s)
        \<and> reserve st' = reserve st + exactCost st sy amt
        \<and> cryptocurrencies st' = cryptocurrencies st
        \<and> supportedCryptos st' = supportedCryptos st
        \<and> owner st' = owner st"
    using buy_success [of st sy amt v m] by blast
qed

theorem buyCryptocurrency_outcomes_witness:
  "\<not> isActive (cryptocurrencies deployed ''XYZ'')
   \<and> buyCryptocurrency deployed traderMsg (10 ^ 18) ''XYZ'' (10 ^ 18) = Inl NotRegistered
   \<and> isActive (cryptocurrencies deployed ''ETH'')
   \<and> buyCryptocurrency deployed traderMsg (10 ^ 18) ''ETH'' 0 = Inl InvalidAmount
   \<and> isActive (cryptocurrencies deployed ''BTC'') \<and> (0::uint256) < 2 ^ 255
   \<and> (2::nat) ^ 256 \<le> unat (2 ^ 255 :: uint256) * unat (price (cryptocurrencies deployed ''BTC''))
   \<and> buyCryptocurrency deployed traderMsg (10 ^ 18) ''BTC'' (2 ^ 255) = Inl Panic
   \<and> (0::uint256) < 10 ^ 18
   \<and> exactCost deployed ''ETH'' (10 ^ 18) = 10 ^ 18
   \<and> buyCryptocurrency deployed traderMsg (10 ^ 18 - 1) ''ETH'' (10 ^ 18) = Inl InsufficientPayment
   \<and> (\<exists>st' refund. buyCryptocurrency deployed traderMsg (10 ^ 18) ''ETH'' (10 ^ 18) = Inr (st', refund)
        \<and> unat refund = 0
        \<and> unat (userBalances st' (sender traderMsg) ''ETH'') = 10 ^ 18)
   \<and> (\<exists>st' refund. buyCryptocurrency deployed traderMsg (3 * 10 ^ 18) ''ETH'' (10 ^ 18) = Inr (st', refund)
        \<and> unat refund = 2 * 10 ^ 18
        \<and> unat (userBalances st' (sender traderMsg) ''ETH'') = 10 ^ 18)"
proof -
  let ?a = "10 ^ 18 :: uint256"
  have act: "isActive (cryptocurrencies deployed ''ETH'')" by (simp add: deployed_fields)
  have actB: "isActive (cryptocurrencies deployed ''BTC'')" by (simp add: deployed_fields)
  have pos: "0 < ?a" by simp
  have big: "(0::uint256) < 2 ^ 255" by simp
  have over: "(2::nat) ^ 256 \<le> unat (2 ^ 255 :: uint256) * unat (price (cryptocurrencies deployed ''BTC''))"
    by (simp add: deployed_fields)
  have fits: "unat ?a * unat (price (cryptocurrencies deployed ''ETH'')) < 2 ^ 256"
    by (simp add: deployed_fields)
  have c: "exactCost deployed ''ETH'' ?a = 10 ^ 18"
    by (simp add: exactCost_def deployed_fields)
  have cnt: "unat (transactionCount deployed) + 1 < 2 ^ 256" by (simp add: deployed_fields)
  have bal: "unat (userBalances deployed (sender traderMsg) ''ETH'') + unat ?a < 2 ^ 256"
    by (simp add: deployed_fields)
  have b0: "unat (userBalances deployed (sender traderMsg) ''ETH'') + unat ?a = 10 ^ 18"
    by (simp add: deployed_fields)
  have r: "senderReceives traderMsg" by (simp add: traderMsg_def)
  have low: "unat (10 ^ 18 - 1 :: uint256) < exactCost deployed ''ETH'' ?a" using c by simp
  have eq: "exactCost deployed ''ETH'' ?a \<le> unat ?a" using c by simp
  have hi: "exactCost deployed ''ETH'' ?a \<le> unat (3 * 10 ^ 18 :: uint256)" using c by simp
  have d0: "unat ?a - exactCost deployed ''ETH'' ?a = 0" using c by simp
  have d2: "unat (3 * 10 ^ 18 :: uint256) - exactCost deployed ''ETH'' ?a = 2 * 10 ^ 18"
    using c by simp
  have z: "(0::uint256) = 0" by simp
  have n: "buyCryptocurrency deployed traderMsg ?a ''XYZ'' ?a = Inl NotRegistered"
    using buyCryptocurrency_outcomes [of deployed "''XYZ''" traderMsg ?a ?a] unlisted_XYZ(1)
    by blast
  have i: "buyCryptocurrency deployed traderMsg ?a ''ETH'' 0 = Inl InvalidAmount"
    using buyCryptocurrency_outcomes [of deployed "''ETH''" traderMsg ?a 0] act z by blast
  have p: "buyCryptocurrency deployed traderMsg ?a ''BTC'' (2 ^ 255) = Inl Panic"
    using buyCryptocurrency_outcomes [of deployed "''BTC''" traderMsg ?a "2 ^ 255"] actB big over
    by blast
  have 1: "buyCryptocurrency deployed traderMsg (10 ^ 18 - 1) ''ETH'' ?a = Inl InsufficientPayment"
    using buyCryptocurrency_outcomes [of deployed "''ETH''" traderMsg "10 ^ 18 - 1" ?a]
      act pos fits low by blast
  have 2: "\<exists>st' refund. buyCryptocurrency deployed traderMsg ?a ''ETH'' ?a = Inr (st', refund)
        \<and> unat refund = unat ?a - exactCost deployed ''ETH'' ?a
        \<and> unat (userBalances st' (sender traderMsg) ''ETH'')
            = unat (userBalances deployed (sender traderMsg) ''ETH'') + unat ?a"
    using buyCryptocurrency_outcomes [of deployed "''ETH''" traderMsg ?a ?a]
      act pos fits eq cnt bal r by blast
  have 3: "\<exists>st' refund. buyCryptocurrency deployed traderMsg (3 * 10 ^ 18) ''ETH'' ?a = Inr (st', refund)
        \<and> unat refund = unat (3 * 10 ^ 18 :: uint256) - exactCost deployed ''ETH'' ?a
        \<and> unat (userBalances st' (sender traderMsg) ''ETH'')
            = unat (userBalances deployed (sender traderMsg) ''ETH'') + unat ?a"
    using buyCryptocurrency_outcomes [of deployed "''ETH''" traderMsg "3 * 10 ^ 18" ?a]
      act pos fits hi cnt bal r by blast
  have s2: "\<exists>st' refund. buyCryptocurrency deployed traderMsg ?a ''ETH'' ?a = Inr (st', refund)
        \<and> unat refund = 0
        \<and> unat (userBalances st' (sender traderMsg) ''ETH'') = 10 ^ 18"
    using 2 unfolding d0 b0 .
  have s3: "\<exists>st' refund. buyCryptocurrency deployed traderMsg (3 * 10 ^ 18) ''ETH'' ?a = Inr (st', refund)
        \<and> unat refund = 2 * 10 ^ 18
        \<and> unat (userBalances st' (sender traderMsg) ''ETH'') = 10 ^ 18"
    using 3 unfolding d2 b0 .
  show ?thesis
    by (intro conjI unlisted_XYZ(1) n act i actB big over p pos c 1 s2 s3)
qed

text \<open>
  Claim C1 as stated fails on the freshly deployed contract. Buying \<open>2\<^sup>2\<^sup>5\<^sup>5\<close> base units
  of BTC with no value attached is a registered symbol, a positive amount and a payment
  below the cost, yet the call does not fail with \<open>InsufficientPayment\<close>: the checked
  multiplication overflows first. And buying one unit of ETH with twice its cost, from
  an account that does not accept plain transfers, is a payment above the cost, yet
  nothing is recorded: the refund fails and the whole call with it.
\<close>

theorem buyCryptocurrency_overflow_counterexample:
  "isActive (cryptocurrencies deployed ''BTC'') \<and> (0::uint256) < 2 ^ 255
   \<and> unat (0::uint256) < exactCost deployed ''BTC'' (2 ^ 255)
   \<and> buyCryptocurrency deployed traderMsg 0 ''BTC'' (2 ^ 255) = Inl Panic
   \<and> buyCryptocurrency deployed traderMsg 0 ''BTC'' (2 ^ 255) \<noteq> Inl InsufficientPayment
   \<and> isActive (cryptocurrencies deployed ''ETH'') \<and> (0::uint256) < 10 ^ 18
   \<and> exactCost deployed ''ETH'' (10 ^ 18) \<le> unat (2 * 10 ^ 18 :: uint256)
   \<and> buyCryptocurrency deployed vaultMsg (2 * 10 ^ 18) ''ETH'' (10 ^ 18) = Inl TransferFailed"
  by (simp add: buyCryptocurrency_def checked_mul_def checked_add_def exactCost_def
      deployed_fields vaultMsg_def)

subsection \<open>Selling\<close>

text \<open>
  Claim C2, as amended. \<open>sellCryptocurrency\<close> fails with \<open>NotRegistered\<close> and
  \<open>InvalidAmount\<close> as buying does, and with \<open>InsufficientBalance\<close> when the caller's
  recorded balance is below the amount. Otherwise the product \<open>amount \<times> price\<close> is
  computed in 256 bits and the call fails with an arithmetic panic when it does not fit.
  When it fits, proceeds = \<open>amount \<times> price / 10\<^sup>1\<^sup>8\<close>; a reserve below the proceeds
  fails with \<open>InsufficientReserve\<close>; otherwise, provided the counter does not overflow
  and the caller accepts the transfer, the call lowers the caller's balance by exactly the
  amount, pays exactly the proceeds out of the reserve and records exactly one completed
  transaction with id = counter + 1. A failing call returns no state at all.
\<close>

theorem sellCryptocurrency_outcomes:
  "(\<not> isActive (cryptocurrencies st sy) \<longrightarrow>
      sellCryptocurrency st m sy amt = Inl NotRegistered)
   \<and> (isActive (cryptocurrencies st sy) \<and> amt = 0 \<longrightarrow>
      sellCryptocurrency st m sy amt = Inl InvalidAmount)
   \<and> (isActive (cryptocurrencies st sy) \<and> 0 < amt
        \<and> unat (userBalances st (sender m) sy) < unat amt \<longrightarrow>
      sellCryptocurrency st m sy amt = Inl InsufficientBalance)
   \<and> (isActive (cryptocurrencies st sy) \<and> 0 < amt
        \<and> unat amt \<le> unat (userBalances st (sender m) sy)
        \<and> 2 ^ 256 \<le> unat amt * unat (price (cryptocurrencies st sy)) \<longrightarrow>
      sellCryptocurrency st m sy amt = Inl Panic)
   \<and> (isActive (cryptocurrencies st sy) \<and> 0 < amt
        \<and> unat amt \<le> unat (userBalances st (sender m) sy)
        \<and> unat amt * unat (price (cryptocurrencies st sy)) < 2 ^ 256
        \<and> reserve st < exactCost st sy amt \<longrightarrow>
      sellCryptocurrency st m sy amt = Inl InsufficientReserve)
   \<and> (isActive (cryptocurrencies st sy) \<and> 0 < amt
        \<and> unat amt \<le> unat (userBalances st (sender m) sy)
        \<and> unat amt * unat (price (cryptocurrencies st sy)) < 2 ^ 256
        \<and> exactCost st sy amt \<le> reserve st
        \<and> unat (transactionCount st) + 1 < 2 ^ 256
        \<and> senderReceives m \<longrightarrow>
      (\<exists>st' proceeds. sellCryptocurrency st m sy amt = Inr (st', proceeds)
        \<and> unat proceeds = exactCost st sy amt
        \<and> unat (transactionCount st') = unat (transactionCount st) + 1
        \<and> transactions st' = (transactions st)(transactionCount st' :=
            \<lparr>txId = transactionCount st', user = sender m, cryptoSymbol = sy, amount = amt,
             txPrice = price (cryptocurrencies st sy), transactionType = ''sell'',
             timestamp = blockTimestamp m, completed = True\<rparr>)
        \<and> userTransactions st' = (userTransactions st)
            (sender m := userTransactions st (sender m) @ [transactionCount st'])
        \<and> unat (userBalances st' (sender m) sy)
            = unat (userBalances st (sender m) sy) - unat amt
        \<and> (\<forall>u s. (u, s) \<noteq> (sender m, sy) \<longrightarrow> userBalances st' u s = userBalances st u s)
        \<and> reserve st' = reserve st - exactCost st sy amt
        \<and> cryptocurrencies st' = cryptocurrencies st
        \<and> supportedCryptos st' = supportedCryptos st
        \<and> owner st' = owner st))"
proof (intro conjI impI)
  show "\<not> isActive (cryptocurrencies st sy) \<Longrightarrow>
      sellCryptocurrency st m sy amt = Inl NotRegistered"
    by (rule sell_not_registered)
next
  assume "isActive (cryptocurrencies st sy) \<and> amt = 0"
  then show "sellCryptocurrency st m sy amt = Inl InvalidAmount"
    by (simp add: sell_invalid_amount)
next
  assume "isActive (cryptocurrencies st sy) \<and> 0 < amt
        \<and> unat (userBalances st (sender m) sy) < unat amt"
  then show "sellCryptocurrency st m sy amt = Inl InsufficientBalance"
    by (simp add: sell_insufficient_balance)
next
  assume "isActive (cryptocurrencies st sy) \<and> 0 < amt
        \<and> unat amt \<le> unat (userBalances st (sender m) sy)
        \<and> 2 ^ 256 \<le> unat amt * unat (price (cryptocurrencies st sy))"
  then show "sellCryptocurrency st m sy amt = Inl Panic"
    by (simp add: sell_overflow)
next
  assume "isActive (cryptocurrencies st sy) \<and> 0 < amt
        \<and> unat amt \<le> unat (userBalances st (sender m) sy)
        \<and> unat amt * unat (price (cryptocurrencies st sy)) < 2 ^ 256
        \<and> reserve st < exactCost st sy amt"
  then show "sellCryptocurrency st m sy amt = Inl InsufficientReserve"
    by (simp add: sell_insufficient_reserve)
next
  assume "isActive (cryptocurrencies st sy) \<and> 0 < amt
        \<and> unat amt \<le> unat (userBalances st (sender m) sy)
        \<and> unat amt * unat (price (cryptocurrencies st sy)) < 2 ^ 256
        \<and> exactCost st sy amt \<le> reserve st
        \<and> unat (transactionCount st) + 1 < 2 ^ 256
        \<and> senderReceives m"
  then show "\<exists>st' proceeds. sellCryptocurrency st m sy amt = Inr (st', proceeds)
        \<and> unat proceeds = exactCost st sy amt
        \<and> unat (transactionCount st') = unat (transactionCount st) + 1
        \<and> transactions st' = (transactions st)(transactionCount st' :=
            \<lparr>txId = transactionCount st', user = sender m, cryptoSymbol = sy, amount = amt,
             txPrice = price (cryptocurrencies st sy), transactionType = ''sell'',
             timestamp = blockTimestamp m, completed = True\<rparr>)
        \<and> userTransactions st' = (userTransactions st)
            (sender m := userTransactions st (sender m) @ [transactionCount st'])
        \<and> unat (userBalances st' (sender m) sy)
            = unat (userBalances st (sender m) sy) - unat amt
        \<and> (\<forall>u s. (u, s) \<noteq> (sender m, sy) \<longrightarrow> userBalances st' u s = userBalances st u s)
        \<and> reserve st' = reserve st - exactCost st sy amt
        \<and> cryptocurrencies st' = cryptocurrencies st
        \<and> supportedCryptos st' = supportedCryptos st
        \<and> owner st' = owner st"
    using sell_success [of st sy amt m] by blast
qed

theorem sellCryptocurrency_outcomes_witness:
  "reachable bought \<and> reachable overpriced \<and> reachable drained
   \<and> \<not> isActive (cryptocurrencies bought ''XYZ'')
   \<and> sellCryptocurrency bought traderMsg ''XYZ'' (10 ^ 40) = Inl NotRegistered
   \<and> isActive (cryptocurrencies bought ''TKN'')
   \<and> sellCryptocurrency bought traderMsg ''TKN'' 0 = Inl InvalidAmount
   \<and> unat (userBalances bought (sender traderMsg) ''TKN'') = 10 ^ 40
   \<and> sellCryptocurrency bought traderMsg ''TKN'' (10 ^ 40 + 1) = Inl InsufficientBalance
   \<and> (2::nat) ^ 256 \<le> unat (10 ^ 40 :: uint256) * unat (price (cryptocurrencies overpriced ''TKN''))
   \<and> sellCryptocurrency overpriced traderMsg ''TKN'' (10 ^ 40) = Inl Panic
   \<and> reserve drained < exactCost drained ''TKN'' (10 ^ 40)
   \<and> sellCryptocurrency drained traderMsg ''TKN'' (10 ^ 40) = Inl InsufficientReserve
   \<and> exactCost bought ''TKN'' (10 ^ 40) = 10 ^ 22 \<and> reserve bought = 10 ^ 22
   \<and> (\<exists>st' proceeds. sellCryptocurrency bought traderMsg ''TKN'' (10 ^ 40) = Inr (st', proceeds)
        \<and> unat proceeds = 10 ^ 22
        \<and> unat (userBalances st' (sender traderMsg) ''TKN'') = 0
        \<and> reserve st' = 0)"
proof -
  let ?a = "10 ^ 40 :: uint256"
  have s: "sender traderMsg = 2" and r: "senderReceives traderMsg" by (simp_all add: traderMsg_def)
  have act: "isActive (cryptocurrencies bought ''TKN'')" by (simp add: bought_fields)
  have actO: "isActive (cryptocurrencies overpriced ''TKN'')" by (simp add: overpriced_fields)
  have actD: "isActive (cryptocurrencies drained ''TKN'')" by (simp add: drained_fields)
  have pos: "0 < ?a" and pos': "0 < ?a + 1" by simp_all
  have z: "(0::uint256) = 0" by simp
  have b: "unat (userBalances bought (sender traderMsg) ''TKN'') = 10 ^ 40"
    by (simp add: s bought_fields)
  have has: "unat ?a \<le> unat (userBalances bought (sender traderMsg) ''TKN'')"
    using b by simp
  have hasO: "unat ?a \<le> unat (userBalances overpriced (sender traderMsg) ''TKN'')"
    by (simp add: s overpriced_fields)
  have hasD: "unat ?a \<le> unat (userBalances drained (sender traderMsg) ''TKN'')"
    by (simp add: s drained_fields)
  have hasnt: "unat (userBalances bought (sender traderMsg) ''TKN'') < unat (?a + 1)"
    using b by simp
  have fits: "unat ?a * unat (price (cryptocurrencies bought ''TKN'')) < 2 ^ 256"
    by (simp add: bought_fields)
  have fitsD: "unat ?a * unat (price (cryptocurrencies drained ''TKN'')) < 2 ^ 256"
    by (simp add: drained_fields)
  have over: "(2::nat) ^ 256 \<le> unat ?a * unat (price (cryptocurrencies overpriced ''TKN''))"
    by (simp add: overpriced_fields)
  have c: "exactCost bought ''TKN'' ?a = 10 ^ 22" by (simp add: exactCost_def bought_fields)
  have short: "reserve drained < exactCost drained ''TKN'' ?a"
    by (simp add: exactCost_def drained_fields)
  have res: "exactCost bought ''TKN'' ?a \<le> reserve bought" using c by (simp add: bought_fields)
  have cnt: "unat (transactionCount bought) + 1 < 2 ^ 256" by (simp add: bought_fields)
  have d0: "unat (userBalances bought (sender traderMsg) ''TKN'') - unat ?a = 0" using b by simp
  have d1: "reserve bought - 10 ^ 22 = 0" by (simp add: bought_fields)
  have n: "sellCryptocurrency bought traderMsg ''XYZ'' ?a = Inl NotRegistered"
    using sellCryptocurrency_outcomes [of bought "''XYZ''" traderMsg ?a] unlisted_XYZ(2) by blast
  have i: "sellCryptocurrency bought traderMsg ''TKN'' 0 = Inl InvalidAmount"
    using sellCryptocurrency_outcomes [of bought "''TKN''" traderMsg 0] act z by blast
  have 1: "sellCryptocurrency bought traderMsg ''TKN'' (?a + 1) = Inl InsufficientBalance"
    using sellCryptocurrency_outcomes [of bought "''TKN''" traderMsg "?a + 1"] act pos' hasnt
    by blast
  have p: "sellCryptocurrency overpriced traderMsg ''TKN'' ?a = Inl Panic"
    using sellCryptocurrency_outcomes [of overpriced "''TKN''" traderMsg ?a] actO pos hasO over
    by blast
  have v: "sellCryptocurrency drained traderMsg ''TKN'' ?a = Inl InsufficientReserve"
    using sellCryptocurrency_outcomes [of drained "''TKN''" traderMsg ?a] actD pos hasD fitsD short
    by blast
  have 2: "\<exists>st' proceeds. sellCryptocurrency bought traderMsg ''TKN'' ?a = Inr (st', proceeds)
        \<and> unat proceeds = exactCost bought ''TKN'' ?a
        \<and> unat (userBalances st' (sender traderMsg) ''TKN'')
            = unat (userBalances bought (sender traderMsg) ''TKN'') - unat ?a
        \<and> reserve st' = reserve bought - exactCost bought ''TKN'' ?a"
    using sellCryptocurrency_outcomes [of bought "''TKN''" traderMsg ?a]
      act pos has fits res cnt r by blast
  have rb: "reserve bought = 10 ^ 22" by (simp add: bought_fields)
  have 3: "\<exists>st' proceeds. sellCryptocurrency bought traderMsg ''TKN'' ?a = Inr (st', proceeds)
        \<and> unat proceeds = 10 ^ 22
        \<and> unat (userBalances st' (sender traderMsg) ''TKN'') = 0
        \<and> reserve st' = 0"
    using 2 unfolding c d0 d1 .
  show ?thesis
    by (intro conjI bought_reachable overpriced_reachable drained_reachable unlisted_XYZ(2)
        n act i b 1 over p short v c rb 3)
qed

text \<open>
  Claim C2 as stated fails in reachable states. After the scenario above the trader
  holds \<open>10\<^sup>4\<^sup>0\<close> units of TKN and the reserve (\<open>10\<^sup>2\<^sup>2\<close> wei) is below the proceeds of
  selling them, yet the sale does not fail with \<open>InsufficientReserve\<close>: the checked
  multiplication overflows first. And before the price was raised, when the balance and
  the reserve both cover the sale, the sale still fails if the seller's account does
  not accept plain transfers.
\<close>

theorem sellCryptocurrency_overflow_counterexample:
  "reachable overpriced
   \<and> isActive (cryptocurrencies overpriced ''TKN'') \<and> (0::uint256) < 10 ^ 40
   \<and> \<not> unat (userBalances overpriced (sender traderMsg) ''TKN'') < unat (10 ^ 40 :: uint256)
   \<and> reserve overpriced < exactCost overpriced ''TKN'' (10 ^ 40)
   \<and> sellCryptocurrency overpriced traderMsg ''TKN'' (10 ^ 40) = Inl Panic
   \<and> sellCryptocurrency overpriced traderMsg ''TKN'' (10 ^ 40) \<noteq> Inl InsufficientReserve
   \<and> reachable bought
   \<and> isActive (cryptocurrencies bought ''TKN'')
   \<and> \<not> unat (userBalances bought (sender vaultMsg) ''TKN'') < unat (10 ^ 40 :: uint256)
   \<and> \<not> reserve bought < exactCost bought ''TKN'' (10 ^ 40)
   \<and> sellCryptocurrency bought vaultMsg ''TKN'' (10 ^ 40) = Inl TransferFailed"
  by (simp add: overpriced_reachable bought_reachable overpriced_fields bought_fields
      exactCost_def sellCryptocurrency_def checked_mul_def checked_add_def checked_sub_def
      traderMsg_def vaultMsg_def)

subsection \<open>Reading\<close>

text \<open>
  Claim C8, as amended. The read functions take the state and return a value only, so
  they cannot change it. In every reachable state: \<open>getUserBalance\<close> returns 0 for a
  symbol that is not registered and for an account that never traded;
  \<open>getUserTransactions\<close> returns the empty list for an account that never traded;
  \<open>getTransaction\<close> returns the all-zero record for id 0 and for every id above the
  counter; \<open>getSupportedCryptos\<close> lists exactly the registered symbols. None of these
  four can fail. \<open>getCryptoPrice\<close> is guarded by \<open>cryptoExists\<close>: it returns the
  stored price of a registered symbol and fails with \<open>NotRegistered\<close> for any other.
\<close>

theorem reads_of_unknown_keys:
  assumes "reachable st"
  shows "(\<not> isActive (cryptocurrencies st sy) \<longrightarrow> getUserBalance st u sy = 0)
    \<and> (neverTraded st u \<longrightarrow> getUserBalance st u sy = 0 \<and> getUserTransactions st u = [])
    \<and> (i = 0 \<or> transactionCount st < i \<longrightarrow> getTransaction st i = zeroTransaction)
    \<and> set (getSupportedCryptos st) = {s. isActive (cryptocurrencies st s)}
    \<and> (\<not> isActive (cryptocurrencies st sy) \<longrightarrow> getCryptoPrice st sy = Inl NotRegistered)
    \<and> (isActive (cryptocurrencies st sy) \<longrightarrow>
          getCryptoPrice st sy = Inr (price (cryptocurrencies st sy)))"
proof -
  have inv: "ledgerInv st" using assms by (rule reachable_ledgerInv)
  have 1: "\<not> isActive (cryptocurrencies st sy) \<longrightarrow> getUserBalance st u sy = 0"
    using inv by (simp add: ledgerInv_def unregisteredZero_def getUserBalance_def)
  have 2: "neverTraded st u \<longrightarrow> getUserBalance st u sy = 0 \<and> getUserTransactions st u = []"
    using inv by (simp add: ledgerInv_def strangersZero_def getUserBalance_def getUserTransactions_def)
  have 3: "i = 0 \<or> transactionCount st < i \<longrightarrow> getTransaction st i = zeroTransaction"
    using inv by (simp add: ledgerInv_def unusedIdsZero_def getTransaction_def)
  have 4: "set (getSupportedCryptos st) = {s. isActive (cryptocurrencies st s)}"
    using reachable_listedInv [OF assms] by (simp add: listedInv_def getSupportedCryptos_def)
  show ?thesis using 1 2 3 4 by (simp add: getCryptoPrice_def)
qed

theorem reads_of_unknown_keys_witness:
  "reachable deployed
   \<and> \<not> isActive (cryptocurrencies deployed ''XYZ'') \<and> getUserBalance deployed 7 ''XYZ'' = 0
   \<and> neverTraded deployed 7 \<and> getUserTransactions deployed 7 = []
   \<and> getTransaction deployed 5 = zeroTransaction
   \<and> getCryptoPrice deployed ''XYZ'' = Inl NotRegistered
   \<and> isActive (cryptocurrencies deployed ''ADA'')
   \<and> getCryptoPrice deployed ''ADA'' = Inr (price (cryptocurrencies deployed ''ADA''))"
proof -
  have r: "reachable deployed" using constructor_deployed by (rule r_deploy)
  have a: "\<not> isActive (cryptocurrencies deployed ''XYZ'')"
    by (simp add: deployed_def zeroCryptoCurrency_def)
  have b: "neverTraded deployed 7"
    by (simp add: neverTraded_def deployed_def emptyContract_def zeroTransaction_def)
  have c: "transactionCount deployed < 5" by (simp add: deployed_def emptyContract_def)
  have d: "isActive (cryptocurrencies deployed ''ADA'')" by (simp add: deployed_def)
  show ?thesis
    using r a b c d reads_of_unknown_keys [OF r, of "''XYZ''" 7 5]
      reads_of_unknown_keys [OF r, of "''ADA''" 7 5]
    by blast
qed

text \<open>
  Claim C8 as stated fails for the price read: on the freshly deployed contract the symbol
  XYZ is unknown and \<open>getCryptoPrice\<close> fails instead of returning zero.
\<close>

theorem getCryptoPrice_unknown_counterexample:
  "reachable deployed \<and> \<not> isActive (cryptocurrencies deployed ''XYZ'')
   \<and> getCryptoPrice deployed ''XYZ'' = Inl NotRegistered
   \<and> getCryptoPrice deployed ''XYZ'' \<noteq> Inr 0"
  using r_deploy [OF constructor_deployed]
  by (simp add: getCryptoPrice_def deployed_def zeroCryptoCurrency_def)

section \<open>The price oracle (BinanceService)\<close>

text \<open>
  Symbols are JavaScript strings, here the lists of the bytes that encode them.
  \<open>String.prototype.toUpperCase\<close> is a function of the language's library, which maps
  every letter of every script: it is a parameter \<open>up\<close> of each function that calls it.
  The functions of the service carry the suffix \<open>_with\<close> and take \<open>up\<close> first;
  what is proved of them for every \<open>up\<close> holds of the service whatever the alphabet of
  the input.

  \<open>toUpperCase\<close> below is the library function on ASCII text: it maps the letters a to
  z to A to Z and leaves every other character alone. The names without the suffix are
  the service at this function, for evaluating it on ASCII symbols.
\<close>

definition toUpperChar :: "char \<Rightarrow> char" where
  "toUpperChar c =
     (case map_of (zip ''abcdefghijklmnopqrstuvwxyz'' ''ABCDEFGHIJKLMNOPQRSTUVWXYZ'') c of
        Some u \<Rightarrow> u | None \<Rightarrow> c)"

definition toUpperCase :: "string \<Rightarrow> string" where
  "toUpperCase s = map toUpperChar s"

text \<open>
  The price cache is a JavaScript \<open>Map\<close>: an association list in insertion order, where
  \<open>set\<close> overwrites the entry of a key already present and appends a new key at the end
  (\<open>AList.update\<close>). \<open>supportedPairs\<close> and the fallback table are object literals.

  Each upstream request is modelled by its outcome: \<open>None\<close> when the request throws,
  \<open>Some\<close> of the response otherwise, prices already in the text form that
  \<open>parseFloat(x).toFixed(8)\<close> gives them. \<open>now\<close> is \<open>Date.now()\<close>. The body of each
  \<open>try\<close> block is a function of its own (suffix \<open>_try\<close>), so that every \<open>throw\<close>
  and the \<open>catch\<close> that receives it are visible.
\<close>

record priceEntry =
  entryPrice :: string
  entryTimestamp :: nat

type_synonym priceCache = "(string \<times> priceEntry) list"

definition supportedPairs :: "(string \<times> string) list" where
  "supportedPairs =
     [(''BTC'', ''BTCUSDT''), (''ETH'', ''ETHUSDT''), (''ADA'', ''ADAUSDT''),
      (''DOT'', ''DOTUSDT''), (''BNB'', ''BNBUSDT''), (''XRP'', ''XRPUSDT''),
      (''SOL'', ''SOLUSDT''), (''MATIC'', ''MATICUSDT'')]"

definition fallbackPrices :: "(string \<times> string) list" where
  "fallbackPrices =
     [(''BTC'', ''43250.00000000''), (''ETH'', ''2650.00000000''), (''ADA'', ''0.38500000''),
      (''DOT'', ''5.45000000''), (''BNB'', ''310.50000000''), (''XRP'', ''0.52000000''),
      (''SOL'', ''98.75000000''), (''MATIC'', ''0.85000000'')]"

definition getFallbackPrice_with :: "(string \<Rightarrow> string) \<Rightarrow> string \<Rightarrow> string" where
  "getFallbackPrice_with up sy =
     (case map_of fallbackPrices (up sy) of Some p \<Rightarrow> p | None \<Rightarrow> ''1.00000000'')"

definition binance_getSupportedCryptos :: "string list" where
  "binance_getSupportedCryptos = map fst supportedPairs"

definition isSupported_with :: "(string \<Rightarrow> string) \<Rightarrow> string \<Rightarrow> bool" where
  "isSupported_with up sy = (map_of supportedPairs (up sy) \<noteq> None)"

definition getCachedPrice_with ::
  "(string \<Rightarrow> string) \<Rightarrow> priceCache \<Rightarrow> string \<Rightarrow> string option" where
  "getCachedPrice_with up cache sy = map_option entryPrice (map_of cache (up sy))"

datatype jsError = Error string

definition getPrice_try_with ::
  "(string \<Rightarrow> string) \<Rightarrow> priceCache \<Rightarrow> nat \<Rightarrow> string option \<Rightarrow> string
    \<Rightarrow> jsError + string \<times> priceCache" where
  "getPrice_try_with up cache now response sy =
     (case map_of supportedPairs (up sy) of
        None \<Rightarrow> Inl (Error (sy @ '' is not supported''))
      | Some binancePair \<Rightarrow>
          (case response of
             None \<Rightarrow> Inl (Error ''request failed'')
           | Some p \<Rightarrow>
               Inr (p, AList.update (up sy)
                 \<lparr>entryPrice = p, entryTimestamp = now\<rparr> cache)))"

definition getPrice_with ::
  "(string \<Rightarrow> string) \<Rightarrow> priceCache \<Rightarrow> nat \<Rightarrow> string option \<Rightarrow> string
    \<Rightarrow> jsError + string \<times> priceCache" where
  "getPrice_with up cache now response sy =
     (case getPrice_try_with up cache now response sy of
        Inr r \<Rightarrow> Inr r
      | Inl error \<Rightarrow>
          (case map_of cache (up sy) of
             Some cached \<Rightarrow> Inr (entryPrice cached, cache)
           | None \<Rightarrow> Inr (getFallbackPrice_with up sy, cache)))"

record stats24 =
  statSymbol :: string
  statPrice :: string
  change :: string
  changePercent :: string
  volume :: string
  high :: string
  low :: string

record ticker24 =
  lastPrice :: string
  priceChange :: string
  priceChangePercent :: string
  tickerVolume :: string
  highPrice :: string
  lowPrice :: string

definition get24hrStats_try_with ::
  "(string \<Rightarrow> string) \<Rightarrow> ticker24 option \<Rightarrow> string \<Rightarrow> jsError + stats24" where
  "get24hrStats_try_with up response sy =
     (case map_of supportedPairs (up sy) of
        None \<Rightarrow> Inl (Error (sy @ '' is not supported''))
      | Some binancePair \<Rightarrow>
          (case response of
             None \<Rightarrow> Inl (Error ''request failed'')
           | Some d \<Rightarrow>
               Inr \<lparr>statSymbol = up sy, statPrice = lastPrice d,
                 change = priceChange d, changePercent = priceChangePercent d,
                 volume = tickerVolume d, high = highPrice d, low = lowPrice d\<rparr>))"

definition get24hrStats_with ::
  "(string \<Rightarrow> string) \<Rightarrow> priceCache \<Rightarrow> nat \<Rightarrow> ticker24 option \<Rightarrow> string option
    \<Rightarrow> string \<Rightarrow> jsError + stats24 \<times> priceCache" where
  "get24hrStats_with up cache now response priceResponse sy =
     (case get24hrStats_try_with up response sy of
        Inr s \<Rightarrow> Inr (s, cache)
      | Inl error \<Rightarrow>
          (case getPrice_with up cache now priceResponse sy of
             Inl e \<Rightarrow> Inl e
           | Inr (currentPrice, cache') \<Rightarrow>
               Inr (\<lparr>statSymbol = up sy, statPrice = currentPrice,
                 change = ''0.00000000'', changePercent = ''0.00'', volume = ''0.00'',
                 high = currentPrice, low = currentPrice\<rparr>, cache')))"

definition symbolOfPair :: "string \<Rightarrow> string option" where
  "symbolOfPair pair =
     find (\<lambda>key. map_of supportedPairs key = Some pair) (map fst supportedPairs)"

fun cacheItems :: "priceCache \<Rightarrow> nat \<Rightarrow> (string \<times> string) list \<Rightarrow> priceCache" where
  "cacheItems cache now [] = cache"
| "cacheItems cache now ((pair, p) # items) =
     (case symbolOfPair pair of
        Some cryptoSym \<Rightarrow>
          cacheItems (AList.update cryptoSym \<lparr>entryPrice = p, entryTimestamp = now\<rparr> cache)
            now items
      | None \<Rightarrow> cacheItems cache now items)"

fun pricesData ::
  "(string \<times> string) list \<Rightarrow> (string \<times> string) list \<Rightarrow> (string \<times> string) list" where
  "pricesData acc [] = acc"
| "pricesData acc ((pair, p) # items) =
     (case symbolOfPair pair of
        Some cryptoSym \<Rightarrow> pricesData (AList.update cryptoSym p acc) items
      | None \<Rightarrow> pricesData acc items)"

definition getFallbackPrices_with :: "(string \<Rightarrow> string) \<Rightarrow> (string \<times> string) list" where
  "getFallbackPrices_with up =
     map (\<lambda>sy. (sy, getFallbackPrice_with up sy)) binance_getSupportedCryptos"

definition getAllPrices_with ::
  "(string \<Rightarrow> string) \<Rightarrow> priceCache \<Rightarrow> nat \<Rightarrow> (string \<times> string) list option
    \<Rightarrow> (string \<times> string) list \<times> priceCache" where
  "getAllPrices_with up cache now response =
     (case response of
        Some items \<Rightarrow> (pricesData [] items, cacheItems cache now items)
      | None \<Rightarrow>
          (let cachedPrices = map (\<lambda>(sy, data). (sy, entryPrice data)) cache
           in if 0 < length cachedPrices then (cachedPrices, cache)
              else (getFallbackPrices_with up, cache)))"

datatype wsMessage = Unparsable | Message string string string

definition onMessage :: "priceCache \<Rightarrow> nat \<Rightarrow> wsMessage \<Rightarrow> priceCache" where
  "onMessage cache now data =
     (case data of
        Unparsable \<Rightarrow> cache
      | Message e s c \<Rightarrow>
          if e = ''24hrTicker'' then
            (case symbolOfPair s of
               Some cryptoSym \<Rightarrow>
                 AList.update cryptoSym \<lparr>entryPrice = c, entryTimestamp = now\<rparr> cache
             | None \<Rightarrow> cache)
          else cache)"

subsection \<open>The service on ASCII symbols\<close>

definition getFallbackPrice :: "string \<Rightarrow> string" where
  "getFallbackPrice = getFallbackPrice_with toUpperCase"

definition isSupported :: "string \<Rightarrow> bool" where
  "isSupported = isSupported_with toUpperCase"

definition getCachedPrice :: "priceCache \<Rightarrow> string \<Rightarrow> string option" where
  "getCachedPrice = getCachedPrice_with toUpperCase"

definition getPrice_try ::
  "priceCache \<Rightarrow> nat \<Rightarrow> string option \<Rightarrow> string \<Rightarrow> jsError + string \<times> priceCache" where
  "getPrice_try = getPrice_try_with toUpperCase"

definition getPrice ::
  "priceCache \<Rightarrow> nat \<Rightarrow> string option \<Rightarrow> string \<Rightarrow> jsError + string \<times> priceCache" where
  "getPrice = getPrice_with toUpperCase"


definition get24hrStats ::
  "priceCache \<Rightarrow> nat \<Rightarrow> ticker24 option \<Rightarrow> string option \<Rightarrow> string
    \<Rightarrow> jsError + stats24 \<times> priceCache" where
  "get24hrStats = get24hrStats_with toUpperCase"

definition getFallbackPrices :: "(string \<times> string) list" where
  "getFallbackPrices = getFallbackPrices_with toUpperCase"

definition getAllPrices ::
  "priceCache \<Rightarrow> nat \<Rightarrow> (string \<times> string) list option
    \<Rightarrow> (string \<times> string) list \<times> priceCache" where
  "getAllPrices = getAllPrices_with toUpperCase"

subsection \<open>Histories of oracle calls\<close>

text \<open>
  A history is a list of timed calls, each with the outcome of its upstream requests,
  replayed from the empty cache the constructor creates. \<open>delivers call S\<close> is the
  price that a successful fetch or stream tick of \<open>call\<close> brings for the upper-case
  symbol \<open>S\<close>, and \<open>lastDelivered\<close> the most recent such price of a history: the list
  is in call order and a later call wins.
\<close>

datatype oracleCall =
    PriceCall string "string option"
  | AllPricesCall "(string \<times> string) list option"
  | StatsCall string "ticker24 option" "string option"
  | Tick wsMessage

fun oracleStep_with ::
  "(string \<Rightarrow> string) \<Rightarrow> priceCache \<Rightarrow> nat \<times> oracleCall \<Rightarrow> priceCache" where
  "oracleStep_with up cache (now, PriceCall sy response) =
     (case getPrice_with up cache now response sy of Inr (p, cache') \<Rightarrow> cache' | Inl e \<Rightarrow> cache)"
| "oracleStep_with up cache (now, AllPricesCall response) =
     snd (getAllPrices_with up cache now response)"
| "oracleStep_with up cache (now, StatsCall sy response priceResponse) =
     (case get24hrStats_with up cache now response priceResponse sy of
        Inr (s, cache') \<Rightarrow> cache' | Inl e \<Rightarrow> cache)"
| "oracleStep_with up cache (now, Tick data) = onMessage cache now data"

definition runOracle_with ::
  "(string \<Rightarrow> string) \<Rightarrow> priceCache \<Rightarrow> (nat \<times> oracleCall) list \<Rightarrow> priceCache" where
  "runOracle_with up cache calls = foldl (oracleStep_with up) cache calls"

definition oracleStep :: "priceCache \<Rightarrow> nat \<times> oracleCall \<Rightarrow> priceCache" where
  "oracleStep = oracleStep_with toUpperCase"

definition runOracle :: "priceCache \<Rightarrow> (nat \<times> oracleCall) list \<Rightarrow> priceCache" where
  "runOracle = runOracle_with toUpperCase"




definition outage :: "(nat \<times> oracleCall) list" where
  "outage =
     [(1, AllPricesCall None),
      (2, PriceCall ''eth'' (Some ''2000.00000000'')),
      (3, Tick (Message ''24hrTicker'' ''ETHUSDT'' ''2100.00000000'')),
      (4, PriceCall ''ETH'' None)]"

definition keysSupported :: "priceCache \<Rightarrow> bool" where
  "keysSupported cache \<longleftrightarrow> (\<forall>k \<in> fst ` set cache. map_of supportedPairs k \<noteq> None)"

subsection \<open>The ASCII service, equation by equation\<close>

lemma getFallbackPrice_eq:
  "getFallbackPrice sy =
     (case map_of fallbackPrices (toUpperCase sy) of Some p \<Rightarrow> p | None \<Rightarrow> ''1.00000000'')"
  by (simp add: getFallbackPrice_def getFallbackPrice_with_def)

lemma isSupported_eq: "isSupported sy = (map_of supportedPairs (toUpperCase sy) \<noteq> None)"
  by (simp add: isSupported_def isSupported_with_def)

lemma getCachedPrice_eq:
  "getCachedPrice cache sy = map_option entryPrice (map_of cache (toUpperCase sy))"
  by (simp add: getCachedPrice_def getCachedPrice_with_def)

lemma getPrice_try_eq:
  "getPrice_try cache now response sy =
     (case map_of supportedPairs (toUpperCase sy) of
        None \<Rightarrow> Inl (Error (sy @ '' is not supported''))
      | Some binancePair \<Rightarrow>
          (case response of
             None \<Rightarrow> Inl (Error ''request failed'')
           | Some p \<Rightarrow>
               Inr (p, AList.update (toUpperCase sy)
                 \<lparr>entryPrice = p, entryTimestamp = now\<rparr> cache)))"
  by (simp add: getPrice_try_def getPrice_try_with_def)

lemma getPrice_eq:
  "getPrice cache now response sy =
     (case getPrice_try cache now response sy of
        Inr r \<Rightarrow> Inr r
      | Inl error \<Rightarrow>
          (case map_of cache (toUpperCase sy) of
             Some cached \<Rightarrow> Inr (entryPrice cached, cache)
           | None \<Rightarrow> Inr (getFallbackPrice sy, cache)))"
  unfolding getPrice_def getPrice_with_def getPrice_try_def getFallbackPrice_def by (rule refl)



lemma getAllPrices_eq:
  "getAllPrices cache now response =
     (case response of
        Some items \<Rightarrow> (pricesData [] items, cacheItems cache now items)
      | None \<Rightarrow>
          (let cachedPrices = map (\<lambda>(sy, data). (sy, entryPrice data)) cache
           in if 0 < length cachedPrices then (cachedPrices, cache)
              else (getFallbackPrices, cache)))"
  unfolding getAllPrices_def getAllPrices_with_def getFallbackPrices_def by (rule refl)

lemma oracleStep_eq [simp]:
  "oracleStep cache (now, PriceCall sy response) =
     (case getPrice cache now response sy of Inr (p, cache') \<Rightarrow> cache' | Inl e \<Rightarrow> cache)"
  "oracleStep cache (now, AllPricesCall batch) = snd (getAllPrices cache now batch)"
  "oracleStep cache (now, StatsCall sy response24 priceResponse) =
     (case get24hrStats cache now response24 priceResponse sy of
        Inr (s, cache') \<Rightarrow> cache' | Inl e \<Rightarrow> cache)"
  "oracleStep cache (now, Tick data) = onMessage cache now data"
  by (simp_all add: oracleStep_def getPrice_def getAllPrices_def get24hrStats_def)

lemma runOracle_eq: "runOracle cache calls = foldl oracleStep cache calls"
  by (simp add: runOracle_def runOracle_with_def oracleStep_def)

subsection \<open>Lemmas on the cache\<close>

lemma toUpperChar_idem: "toUpperChar (toUpperChar c) = toUpperChar c"
  by (simp add: toUpperChar_def)

lemma toUpperCase_idem: "toUpperCase (toUpperCase s) = toUpperCase s"
  by (simp add: toUpperCase_def toUpperChar_idem)

lemma symbolOfPair_iff: "symbolOfPair pair = Some S \<longleftrightarrow> map_of supportedPairs S = Some pair"
  by (auto simp: symbolOfPair_def supportedPairs_def split: if_splits)

lemma map_of_update:
  "map_of (AList.update k v al) S = (if S = k then Some v else map_of al S)"
  by (simp add: update_conv')






lemma getPrice_with_total: "getPrice_with up cache now response sy \<noteq> Inl e"
  by (simp add: getPrice_with_def split: sum.splits option.splits)





lemma supported_examples: "isSupported ''Eth''" "isSupported ''btc''" "\<not> isSupported ''XYZ''"
  by (simp_all add: isSupported_eq supportedPairs_def toUpperCase_def toUpperChar_def)

lemma keysSupported_update:
  "keysSupported cache \<Longrightarrow> map_of supportedPairs k \<noteq> None \<Longrightarrow> keysSupported (AList.update k v cache)"
  by (auto simp: keysSupported_def dom_update)

lemma keysSupported_getPrice:
  "keysSupported cache \<Longrightarrow> getPrice_with up cache now response sy = Inr (p, cache')
     \<Longrightarrow> keysSupported cache'"
  by (auto simp: getPrice_with_def getPrice_try_with_def keysSupported_update split: option.splits)

lemma keysSupported_cacheItems:
  "keysSupported cache \<Longrightarrow> keysSupported (cacheItems cache now items)"
proof (induction items arbitrary: cache)
  case Nil
  then show ?case by simp
next
  case (Cons item items)
  obtain pair p where item: "item = (pair, p)" by (cases item)
  show ?case
  proof (cases "symbolOfPair pair")
    case None
    then show ?thesis using Cons by (simp add: item)
  next
    case (Some T)
    then have "map_of supportedPairs T \<noteq> None" by (simp add: symbolOfPair_iff)
    then show ?thesis using Some Cons by (simp add: item keysSupported_update)
  qed
qed

lemma keysSupported_onMessage: "keysSupported cache \<Longrightarrow> keysSupported (onMessage cache now data)"
  by (cases data)
    (auto simp: onMessage_def symbolOfPair_iff keysSupported_update split: option.splits)

lemma keysSupported_step:
  "keysSupported cache \<Longrightarrow> keysSupported (oracleStep_with up cache call)"
proof -
  assume k: "keysSupported cache"
  obtain now c where call: "call = (now, c)" by (cases call)
  show ?thesis
  proof (cases c)
    case (PriceCall sy response)
    then show ?thesis using k keysSupported_getPrice [OF k]
      by (auto simp: call split: sum.splits)
  next
    case (AllPricesCall response)
    then show ?thesis using k
      by (cases response) (auto simp: call getAllPrices_with_def keysSupported_cacheItems Let_def)
  next
    case (StatsCall sy response priceResponse)
    then show ?thesis using k keysSupported_getPrice [OF k]
      by (auto simp: call get24hrStats_with_def split: sum.splits)
  next
    case (Tick data)
    then show ?thesis using k by (simp add: call keysSupported_onMessage)
  qed
qed

lemma keysSupported_run:
  "keysSupported cache \<Longrightarrow> keysSupported (runOracle_with up cache calls)"
  unfolding runOracle_with_def
  by (induction calls arbitrary: cache) (simp_all add: keysSupported_step)

lemma supported_key_fixed:
  assumes "map up binance_getSupportedCryptos = binance_getSupportedCryptos"
    and "map_of supportedPairs k \<noteq> None"
  shows "up k = k"
proof -
  have "k \<in> set binance_getSupportedCryptos"
    using assms(2) by (simp add: binance_getSupportedCryptos_def map_of_eq_None_iff)
  then obtain i where i: "i < length binance_getSupportedCryptos"
    and k: "binance_getSupportedCryptos ! i = k"
    by (auto simp: in_set_conv_nth)
  have "map up binance_getSupportedCryptos ! i = up k" using i k by simp
  then show ?thesis using assms(1) k by simp
qed

lemma toUpperCase_keys:
  "map toUpperCase binance_getSupportedCryptos = binance_getSupportedCryptos"
  by (simp add: binance_getSupportedCryptos_def supportedPairs_def toUpperCase_def toUpperChar_def)

lemma outage_cache:
  "runOracle [] outage = [(''ETH'', \<lparr>entryPrice = ''2100.00000000'', entryTimestamp = 3\<rparr>)]"
  by (simp add: runOracle_eq outage_def getAllPrices_eq getPrice_eq getPrice_try_eq
      onMessage_def symbolOfPair_def supportedPairs_def toUpperCase_def toUpperChar_def Let_def)

subsection \<open>Unsupported symbols\<close>

text \<open>
  Claim C6 says that \<open>price(symbol)\<close> fails with \<open>UnsupportedAsset\<close> for a symbol that
  is not supported. \<open>getPrice\<close> does throw \<open>Error("XYZ is not supported")\<close>, but inside
  its own \<open>try\<close> block: the \<open>catch\<close> written for upstream failures receives it and
  answers with the cached or fallback price. For XYZ, with the upstream down or up, the
  caller gets the default price 1.00000000 and no failure.
\<close>

theorem getPrice_unsupported_returns_default:
  "\<not> isSupported ''XYZ''
   \<and> getPrice [] 5 None ''XYZ'' = Inr (''1.00000000'', [])
   \<and> getPrice [] 5 (Some ''7.00000000'') ''XYZ'' = Inr (''1.00000000'', [])"
  by (simp add: supported_examples getPrice_eq getPrice_try_eq getFallbackPrice_eq
      supportedPairs_def fallbackPrices_def toUpperCase_def toUpperChar_def)

subsection \<open>Upstream failure\<close>



subsection \<open>Letter case\<close>

text \<open>
  Claim C10. Let \<open>up\<close> be the upper-casing function of the language, of which two
  properties are used: upper-casing twice is upper-casing once, and the eight listed
  names are their own upper-case forms. Then for every string \<open>s\<close>, of any alphabet,
  \<open>getPrice\<close>, \<open>get24hrStats\<close>, \<open>isSupported\<close> and \<open>getCachedPrice\<close> give the same
  result (and the same new cache) for \<open>s\<close> and for its upper-case form; after any
  history of calls every key of the cache is its own upper-case form; and a price cached
  through one spelling of a supported symbol is what the cached-price lookup returns for
  every other spelling.
\<close>

theorem symbol_case_insensitive:
  assumes "\<forall>s. up (up s) = up s"
    and "map up binance_getSupportedCryptos = binance_getSupportedCryptos"
  shows "getPrice_with up cache now response s = getPrice_with up cache now response (up s)
   \<and> get24hrStats_with up cache now response24 response s
       = get24hrStats_with up cache now response24 response (up s)
   \<and> isSupported_with up s = isSupported_with up (up s)
   \<and> getCachedPrice_with up cache s = getCachedPrice_with up cache (up s)
   \<and> (\<forall>k \<in> fst ` set (runOracle_with up [] calls). up k = k)
   \<and> (isSupported_with up s \<and> up s' = up s \<longrightarrow>
        (\<exists>cache'. getPrice_with up cache now (Some p) s = Inr (p, cache')
           \<and> getCachedPrice_with up cache' s' = Some p))"
proof (intro conjI)
  have idem: "up (up t) = up t" for t using assms(1) by simp
  show g: "getPrice_with up cache now response s = getPrice_with up cache now response (up s)"
    by (simp add: getPrice_with_def getPrice_try_with_def getFallbackPrice_with_def idem
        split: option.splits)
  show "get24hrStats_with up cache now response24 response s
       = get24hrStats_with up cache now response24 response (up s)"
    by (simp add: get24hrStats_with_def get24hrStats_try_with_def g [symmetric] idem
        split: option.splits sum.splits)
  show "isSupported_with up s = isSupported_with up (up s)"
    by (simp add: isSupported_with_def idem)
  show "getCachedPrice_with up cache s = getCachedPrice_with up cache (up s)"
    by (simp add: getCachedPrice_with_def idem)
  show "\<forall>k \<in> fst ` set (runOracle_with up [] calls). up k = k"
    using keysSupported_run [of "[]" up calls] supported_key_fixed [OF assms(2)]
    by (auto simp: keysSupported_def)
  show "isSupported_with up s \<and> up s' = up s \<longrightarrow>
        (\<exists>cache'. getPrice_with up cache now (Some p) s = Inr (p, cache')
           \<and> getCachedPrice_with up cache' s' = Some p)"
    by (auto simp: isSupported_with_def getPrice_with_def getPrice_try_with_def
        getCachedPrice_with_def map_of_update)
qed

theorem symbol_case_insensitive_witness:
  "(\<forall>s. toUpperCase (toUpperCase s) = toUpperCase s)
   \<and> map toUpperCase binance_getSupportedCryptos = binance_getSupportedCryptos
   \<and> isSupported_with toUpperCase ''Eth'' \<and> toUpperCase ''eTH'' = toUpperCase ''Eth''
   \<and> (\<exists>cache'. getPrice_with toUpperCase [] 7 (Some ''2000.00000000'') ''Eth''
           = Inr (''2000.00000000'', cache')
         \<and> getCachedPrice_with toUpperCase cache' ''eTH'' = Some ''2000.00000000'')
   \<and> ''ETH'' \<in> fst ` set (runOracle_with toUpperCase [] outage) \<and> toUpperCase ''ETH'' = ''ETH''
   \<and> getPrice_with toUpperCase [] 7 None ''Eth''
       = getPrice_with toUpperCase [] 7 None (toUpperCase ''Eth'')"
proof -
  have i: "\<forall>s. toUpperCase (toUpperCase s) = toUpperCase s" by (simp add: toUpperCase_idem)
  have e: "isSupported_with toUpperCase ''Eth''"
    using supported_examples(1) by (simp add: isSupported_def)
  have u: "toUpperCase ''eTH'' = toUpperCase ''Eth''"
    by (simp add: toUpperCase_def toUpperChar_def)
  have k: "''ETH'' \<in> fst ` set (runOracle_with toUpperCase [] outage)"
    using outage_cache by (simp add: runOracle_def)
  show ?thesis
    using symbol_case_insensitive [OF i toUpperCase_keys,
        of "[]" 7 None "''Eth''" None outage "''eTH''" "''2000.00000000''"]
      symbol_case_insensitive [OF i toUpperCase_keys,
        of "[]" 7 "Some ''2000.00000000''" "''Eth''" None outage "''eTH''" "''2000.00000000''"]
      i toUpperCase_keys e u k
    by blast
qed

section \<open>JavaScript numbers\<close>



definition roundEven :: "real \<Rightarrow> int" where
  "roundEven y =
     (if y - of_int \<lfloor>y\<rfloor> < 1 / 2 then \<lfloor>y\<rfloor>
      else if 1 / 2 < y - of_int \<lfloor>y\<rfloor> then \<lfloor>y\<rfloor> + 1
      else if even \<lfloor>y\<rfloor> then \<lfloor>y\<rfloor> else \<lfloor>y\<rfloor> + 1)"

definition binade :: "real \<Rightarrow> int" where
  "binade x = \<lfloor>log 2 \<bar>x\<bar>\<rfloor>"

definition roundToDouble :: "real \<Rightarrow> real" where
  "roundToDouble x =
     (if x = 0 then 0
      else of_int (roundEven (x / 2 powr (of_int (binade x) - 52)))
             * 2 powr (of_int (binade x) - 52))"

subsection \<open>Lemmas on rounding\<close>



lemma binade_eq:
  assumes "2 powr of_int e \<le> \<bar>x\<bar>" and "\<bar>x\<bar> < 2 powr (of_int e + 1)"
  shows "binade x = e"
proof -
  have "(0::real) < 2 powr of_int e" by simp
  then have p: "0 < \<bar>x\<bar>" using assms(1) by linarith
  have "of_int e \<le> log 2 \<bar>x\<bar>" using assms(1) p by (simp add: le_log_iff)
  moreover have "log 2 \<bar>x\<bar> < of_int e + 1" using assms(2) p by (simp add: log_less_iff)
  ultimately show ?thesis unfolding binade_def by linarith
qed



lemma roundToDouble_down:
  assumes "2 ^ 52 \<le> \<bar>x\<bar> * 2 ^ n" and "\<bar>x\<bar> * 2 ^ n < 2 ^ 53"
  shows "roundToDouble x = of_int (roundEven (x * 2 ^ n)) / 2 ^ n"
proof -
  have p: "(0::real) < 2 ^ n" by simp
  have lo: "(2::real) powr of_int (52 - int n) = 2 ^ 52 / 2 ^ n"
    by (simp add: powr_diff powr_realpow)
  have hi: "(2::real) powr (of_int (52 - int n) + 1) = (2::real) ^ 53 / 2 ^ n"
    by (simp add: powr_diff powr_add powr_realpow)
  have "2 ^ 52 / 2 ^ n \<le> \<bar>x\<bar>"
    using assms(1) p by (simp add: pos_divide_le_eq)
  moreover have "\<bar>x\<bar> < 2 ^ 53 / 2 ^ n"
    using assms(2) p by (simp add: pos_less_divide_eq)
  ultimately have b: "binade x = 52 - int n"
    unfolding lo [symmetric] hi [symmetric] by (rule binade_eq)
  have x: "x \<noteq> 0" using assms(1) by auto
  have "2 powr (of_int (binade x) - 52) = 1 / (2::real) ^ n"
    by (simp add: b powr_minus powr_realpow field_simps)
  then show ?thesis using x by (simp add: roundToDouble_def)
qed















section \<open>The transaction orchestrator (trading controller with Binance prices)\<close>

text \<open>
  The controller functions \<open>buyCryptocurrency\<close> and \<open>sellCryptocurrency\<close> of the trading
  controller that prices orders through the Binance service, and the functions
  \<open>buyCryptocurrency\<close> and \<open>sellCryptocurrency\<close> of \<open>config/blockchain.js\<close> that they
  import as \<open>blockchainBuy\<close> and \<open>blockchainSell\<close>.

  \<^item> A request carries the authenticated user's id and wallet address and the body fields
    \<open>cryptoSymbol\<close>, \<open>amount\<close> and \<open>ethValue\<close>. An amount is the real number that
    the JavaScript number stands for; an absent field is the empty string or 0, which
    JavaScript treats alike.
  \<^item> The journal is the \<open>transactions\<close> table: a list of rows in insertion order. The
    store is taken to accept every insert and to keep the amount as given. Its sums are
    exact decimals; the balance check before a sell reads the two sums as numbers and
    subtracts them, rounding each time (\<open>journalBalance\<close>).
  \<^item> \<open>web3\<close> is the outcome of the whole submission (conversion to wei, gas estimate,
    signature, send, wait for the receipt): a receipt with the transaction hash, or a
    thrown error. \<open>Thrown message cause\<close> is an error with its \<open>message\<close> and, if the
    contract reverted, the revert reason, which the error carries in its \<open>cause\<close>.
    \<open>blockchain.js\<close> imports the \<open>Web3\<close> export of web3 version 4, which reports
    every revert with the one message \<open>contractExecutionError\<close>.
  \<^item> \<open>chainCalls\<close> logs every invocation of \<open>blockchainBuy\<close> and \<open>blockchainSell\<close>.
  \<^item> Response messages that embed formatted numbers are shortened to their fixed part.
\<close>

datatype orderType = Buy | Sell

record journalEntry =
  user_id :: nat
  crypto_symbol :: string
  j_amount :: real
  j_price :: string
  j_type :: orderType
  tx_hash :: "string option"

datatype web3Outcome = Receipt string | Thrown string "string option"

datatype blockchainResult = Succeeded string | Failed string

datatype chainCall =
    BuyCall string string real real
  | SellCall string string real

record orderRequest =
  userId :: nat
  userWalletAddress :: string
  orderSymbol :: string
  orderAmount :: real
  ethValue :: real

record orderEnv =
  envNow :: nat
  priceResponse :: "string option"
  contractReady :: bool
  web3 :: web3Outcome

record world =
  journal :: "journalEntry list"
  priceCache :: priceCache
  chainCalls :: "chainCall list"

datatype httpResponse =
    Status400 string
  | Status500 string
  | Status200 "string option" string real string

definition contractExecutionError :: string where
  "contractExecutionError =
     ''Error happened while trying to execute a function inside a smart contract''"

definition blockchainBuy :: "orderEnv \<Rightarrow> jsError + blockchainResult" where
  "blockchainBuy env =
     (if \<not> contractReady env then Inr (Failed ''Contract not initialized'')
      else case web3 env of
        Receipt transactionHash \<Rightarrow> Inr (Succeeded transactionHash)
      | Thrown message cause \<Rightarrow> Inr (Failed message))"

definition blockchainSell :: "orderEnv \<Rightarrow> jsError + blockchainResult" where
  "blockchainSell env =
     (if \<not> contractReady env then Inr (Failed ''Contract not initialized'')
      else case web3 env of
        Receipt transactionHash \<Rightarrow> Inr (Succeeded transactionHash)
      | Thrown message cause \<Rightarrow> Inr (Failed message))"

definition hashOrNull :: "blockchainResult option \<Rightarrow> string option" where
  "hashOrNull r =
     (case r of
        Some (Succeeded transactionHash) \<Rightarrow>
          if transactionHash = [] then None else Some transactionHash
      | _ \<Rightarrow> None)"

definition insertTransaction :: "journalEntry \<Rightarrow> world \<Rightarrow> world" where
  "insertTransaction e w = w\<lparr>journal := journal w @ [e]\<rparr>"

definition trading_buyCryptocurrency_with ::
  "(string \<Rightarrow> string) \<Rightarrow> orderEnv \<Rightarrow> world \<Rightarrow> orderRequest \<Rightarrow> httpResponse \<times> world" where
  "trading_buyCryptocurrency_with up env w req =
     (if orderSymbol req = [] \<or> orderAmount req = 0 \<or> ethValue req = 0 then
        (Status400 ''Please provide cryptoSymbol, amount, and ethValue'', w)
      else if orderAmount req \<le> 0 \<or> ethValue req \<le> 0 then
        (Status400 ''Amount and ethValue must be greater than 0'', w)
      else if \<not> isSupported_with up (orderSymbol req) then
        (Status400 (orderSymbol req @ '' is not supported''), w)
      else case getPrice_with up (priceCache w) (envNow env) (priceResponse env)
                  (up (orderSymbol req)) of
        Inl (Error message) \<Rightarrow> (Status500 ''Internal server error'', w)
      | Inr (currentPrice, cache') \<Rightarrow>
          let w1 = w\<lparr>priceCache := cache'\<rparr> in
          if orderSymbol req \<noteq> ''ETH'' \<and> orderSymbol req \<noteq> ''BTC'' then
            let w2 = w1\<lparr>chainCalls := chainCalls w1 @
                       [BuyCall (userWalletAddress req) (up (orderSymbol req))
                          (orderAmount req) (ethValue req)]\<rparr>;
                result = (case blockchainBuy env of Inr r \<Rightarrow> Some r | Inl err \<Rightarrow> None)
            in (case result of
                  Some (Failed message) \<Rightarrow>
                    (Status400 (if message = [] then ''Transaction has been reverted by the EVM''
                                else message), w2)
                | _ \<Rightarrow>
                    (Status200 (hashOrNull result) (up (orderSymbol req))
                       (orderAmount req) currentPrice,
                     insertTransaction
                       \<lparr>user_id = userId req, crypto_symbol = up (orderSymbol req),
                        j_amount = orderAmount req, j_price = currentPrice, j_type = Buy,
                        tx_hash = hashOrNull result\<rparr> w2))
          else
            (Status200 None (up (orderSymbol req)) (orderAmount req) currentPrice,
             insertTransaction
               \<lparr>user_id = userId req, crypto_symbol = up (orderSymbol req),
                j_amount = orderAmount req, j_price = currentPrice, j_type = Buy,
                tx_hash = None\<rparr> w1))"

definition journalSum :: "journalEntry list \<Rightarrow> nat \<Rightarrow> string \<Rightarrow> orderType \<Rightarrow> real" where
  "journalSum rows uid sy t =
     sum_list (map j_amount
       (filter (\<lambda>e. user_id e = uid \<and> crypto_symbol e = sy \<and> j_type e = t) rows))"

definition journalBalance ::
  "(real \<Rightarrow> real) \<Rightarrow> journalEntry list \<Rightarrow> nat \<Rightarrow> string \<Rightarrow> real" where
  "journalBalance fl rows uid sy =
     fl (fl (journalSum rows uid sy Buy) - fl (journalSum rows uid sy Sell))"

definition trading_sellCryptocurrency_with ::
  "(string \<Rightarrow> string) \<Rightarrow> (real \<Rightarrow> real) \<Rightarrow> orderEnv \<Rightarrow> world \<Rightarrow> orderRequest
    \<Rightarrow> httpResponse \<times> world" where
  "trading_sellCryptocurrency_with up fl env w req =
     (if orderSymbol req = [] \<or> orderAmount req = 0 \<or> orderAmount req \<le> 0 then
        (Status400 ''Please provide valid cryptoSymbol and amount'', w)
      else if \<not> isSupported_with up (orderSymbol req) then
        (Status400 (orderSymbol req @ '' is not supported''), w)
      else if journalBalance fl (journal w) (userId req) (up (orderSymbol req))
                < orderAmount req then
        (Status400 ''Insufficient cryptocurrency balance'', w)
      else case getPrice_with up (priceCache w) (envNow env) (priceResponse env)
                  (up (orderSymbol req)) of
        Inl (Error message) \<Rightarrow> (Status500 ''Internal server error'', w)
      | Inr (currentPrice, cache') \<Rightarrow>
          let w1 = w\<lparr>priceCache := cache'\<rparr> in
          if orderSymbol req \<noteq> ''ETH'' \<and> orderSymbol req \<noteq> ''BTC'' then
            let w2 = w1\<lparr>chainCalls := chainCalls w1 @
                       [SellCall (userWalletAddress req) (up (orderSymbol req))
                          (orderAmount req)]\<rparr>;
                result = (case blockchainSell env of Inr r \<Rightarrow> Some r | Inl err \<Rightarrow> None)
            in (case result of
                  Some (Failed message) \<Rightarrow>
                    (Status400 (if message = [] then ''EVM revert'' else message), w2)
                | _ \<Rightarrow>
                    (Status200 (hashOrNull result) (up (orderSymbol req))
                       (orderAmount req) currentPrice,
                     insertTransaction
                       \<lparr>user_id = userId req, crypto_symbol = up (orderSymbol req),
                        j_amount = orderAmount req, j_price = currentPrice, j_type = Sell,
                        tx_hash = hashOrNull result\<rparr> w2))
          else
            (Status200 None (up (orderSymbol req)) (orderAmount req) currentPrice,
             insertTransaction
               \<lparr>user_id = userId req, crypto_symbol = up (orderSymbol req),
                j_amount = orderAmount req, j_price = currentPrice, j_type = Sell,
                tx_hash = None\<rparr> w1))"

text \<open>
  \<open>validBuy_with\<close> and \<open>validSell_with\<close> are the orders that pass the checks the
  controller makes before it asks for the price: the field checks, \<open>isSupported\<close> and,
  for a sell, the balance check as the controller computes it.
\<close>

definition validBuy_with :: "(string \<Rightarrow> string) \<Rightarrow> orderRequest \<Rightarrow> bool" where
  "validBuy_with up req \<longleftrightarrow> orderSymbol req \<noteq> [] \<and> 0 < orderAmount req \<and> 0 < ethValue req
     \<and> isSupported_with up (orderSymbol req)"


text \<open>The controller on ASCII symbols and doubles.\<close>

definition trading_buyCryptocurrency ::
  "orderEnv \<Rightarrow> world \<Rightarrow> orderRequest \<Rightarrow> httpResponse \<times> world" where
  "trading_buyCryptocurrency = trading_buyCryptocurrency_with toUpperCase"

definition trading_sellCryptocurrency ::
  "orderEnv \<Rightarrow> world \<Rightarrow> orderRequest \<Rightarrow> httpResponse \<times> world" where
  "trading_sellCryptocurrency = trading_sellCryptocurrency_with toUpperCase roundToDouble"

definition validBuy :: "orderRequest \<Rightarrow> bool" where
  "validBuy = validBuy_with toUpperCase"


definition ethOrder :: orderRequest where
  "ethOrder = \<lparr>userId = 7, userWalletAddress = ''0xA11CE'', orderSymbol = ''eth'',
     orderAmount = 1, ethValue = 1\<rparr>"

definition mined :: orderEnv where
  "mined = \<lparr>envNow = 50, priceResponse = None, contractReady = True, web3 = Receipt ''0xabc''\<rparr>"

definition reverted :: orderEnv where
  "reverted = \<lparr>envNow = 50, priceResponse = None, contractReady = True,
     web3 = Thrown contractExecutionError (Some ''Insufficient ETH sent'')\<rparr>"

definition freshWorld :: world where
  "freshWorld = \<lparr>journal = [], priceCache = [], chainCalls = []\<rparr>"


text \<open>
  A journal of one buy of 0.3 ADA and one sell of 0.1 ADA, and an order to sell the
  number 0.2.
\<close>

definition tenthsWorld :: world where
  "tenthsWorld = \<lparr>journal =
       [\<lparr>user_id = 7, crypto_symbol = ''ADA'', j_amount = 3 / 10, j_price = ''0.38500000'',
         j_type = Buy, tx_hash = Some ''0x111''\<rparr>,
        \<lparr>user_id = 7, crypto_symbol = ''ADA'', j_amount = 1 / 10, j_price = ''0.38500000'',
         j_type = Sell, tx_hash = Some ''0x222''\<rparr>],
     priceCache = [], chainCalls = []\<rparr>"

definition fifthOrder :: orderRequest where
  "fifthOrder = \<lparr>userId = 7, userWalletAddress = ''0xA11CE'', orderSymbol = ''ADA'',
     orderAmount = roundToDouble (1 / 5), ethValue = 0\<rparr>"

subsection \<open>Lemmas on orders\<close>

lemma blockchainBuy_total: "blockchainBuy env \<noteq> Inl e"
  by (simp add: blockchainBuy_def split: web3Outcome.splits)

lemma blockchainSell_total: "blockchainSell env \<noteq> Inl e"
  by (simp add: blockchainSell_def split: web3Outcome.splits)


lemma tracked_reaches_contract:
  assumes "up ''ETH'' = ''ETH''" and "up ''BTC'' = ''BTC''"
    and "up s \<noteq> ''ETH''" and "up s \<noteq> ''BTC''"
  shows "s \<noteq> ''ETH'' \<and> s \<noteq> ''BTC''"
  using assms by auto









lemma exact_symbol_skips_contract:
  assumes "orderSymbol req = ''ETH'' \<or> orderSymbol req = ''BTC''"
  shows "chainCalls (snd (trading_buyCryptocurrency_with up env w req)) = chainCalls w"
    and "chainCalls (snd (trading_sellCryptocurrency_with up fl env w req)) = chainCalls w"
  using assms getPrice_with_total
  by (auto simp: trading_buyCryptocurrency_with_def trading_sellCryptocurrency_with_def Let_def
      insertTransaction_def split: sum.splits jsError.splits)

text \<open>
  The balance check computes with doubles. After a buy of 0.3 and a sell of 0.1 the two
  sums read as numbers differ by 0.19999999999999998, one step below the number 0.2, and
  an order to sell 0.2 is refused.
\<close>

lemma tenths_balance:
  "journalBalance roundToDouble (journal tenthsWorld) 7 ''ADA''
     = 7205759403792793 / 36028797018963968"
  "roundToDouble (1 / 5) = 7205759403792794 / 36028797018963968"
proof -
  have a: "roundToDouble (3 / 10) = 5404319552844595 / 18014398509481984"
    using roundToDouble_down [of "3 / 10" 54] by (simp add: roundEven_def)
  have b: "roundToDouble (1 / 10) = 3602879701896397 / 36028797018963968"
    using roundToDouble_down [of "1 / 10" 56] by (simp add: roundEven_def)
  have c: "roundToDouble (7205759403792793 / 36028797018963968)
      = 7205759403792793 / 36028797018963968"
    using roundToDouble_down [of "7205759403792793 / 36028797018963968" 55]
    by (simp add: roundEven_def)
  have d: "(5404319552844595 / 18014398509481984 - 3602879701896397 / 36028797018963968 :: real)
      = 7205759403792793 / 36028797018963968"
    by simp
  have s: "journalSum (journal tenthsWorld) 7 ''ADA'' Buy = 3 / 10"
    "journalSum (journal tenthsWorld) 7 ''ADA'' Sell = 1 / 10"
    by (simp_all add: journalSum_def tenthsWorld_def)
  show "journalBalance roundToDouble (journal tenthsWorld) 7 ''ADA''
     = 7205759403792793 / 36028797018963968"
    unfolding journalBalance_def s a b d c by (rule refl)
  show "roundToDouble (1 / 5) = 7205759403792794 / 36028797018963968"
    using roundToDouble_down [of "1 / 5" 55] by (simp add: roundEven_def)
qed

lemma tenths_refused:
  "fst (trading_sellCryptocurrency mined tenthsWorld fifthOrder)
     = Status400 ''Insufficient cryptocurrency balance''"
proof -
  have u: "toUpperCase ''ADA'' = ''ADA''" by (simp add: toUpperCase_def toUpperChar_def)
  have s: "isSupported_with toUpperCase ''ADA''"
    by (simp add: isSupported_with_def supportedPairs_def u)
  have p: "(0::real) < 7205759403792794 / 36028797018963968" by simp
  have l: "(7205759403792793 / 36028797018963968 :: real) < 7205759403792794 / 36028797018963968"
    by simp
  show ?thesis
    using p l
    by (simp add: trading_sellCryptocurrency_def trading_sellCryptocurrency_with_def
        fifthOrder_def u s tenths_balance)
qed

subsection \<open>Orders sent to the contract: the journal follows the chain\<close>




subsection \<open>ETH and BTC: skipping the contract\<close>

text \<open>
  Claim C4 says that orders for ETH and BTC never reach the contract. The controller
  says so too (\<open>// Only call smart contract for tokens, skip ETH/BTC\<close>), but it compares
  the symbol as the client spelled it, \<open>cryptoSymbol !== 'ETH'\<close>, while every other use
  of the symbol goes through \<open>toUpperCase()\<close>. An order for \<open>eth\<close> passes
  \<open>isSupported\<close>, is not equal to \<open>'ETH'\<close>, and is submitted to the contract as a buy
  of \<open>ETH\<close>, an asset the contract's constructor registers; the journal row then carries
  the hash of that on-chain transaction.
\<close>

theorem lowercase_eth_reaches_contract:
  "validBuy ethOrder \<and> toUpperCase (orderSymbol ethOrder) = ''ETH''
   \<and> trading_buyCryptocurrency mined freshWorld ethOrder =
       (Status200 (Some ''0xabc'') ''ETH'' 1 ''2650.00000000'',
        \<lparr>journal = [\<lparr>user_id = 7, crypto_symbol = ''ETH'', j_amount = 1,
                      j_price = ''2650.00000000'', j_type = Buy, tx_hash = Some ''0xabc''\<rparr>],
         priceCache = [],
         chainCalls = [BuyCall ''0xA11CE'' ''ETH'' 1 1]\<rparr>)"
  by (simp add: validBuy_def validBuy_with_def ethOrder_def mined_def freshWorld_def
      trading_buyCryptocurrency_def trading_buyCryptocurrency_with_def
      blockchainBuy_def hashOrNull_def insertTransaction_def Let_def
      isSupported_with_def getPrice_with_def getPrice_try_with_def getFallbackPrice_with_def
      supportedPairs_def fallbackPrices_def toUpperCase_def toUpperChar_def)

section \<open>Balance reconciliation\<close>
























subsection \<open>Lemmas on rounding and sums\<close>




























subsection \<open>The portfolio\<close>




subsection \<open>The effective balance\<close>




end
